theory Spec2Isabelle
  imports Complex_Main "HOL-Library.Word" "HOL-Library.Char_ord"
    "HOL-Library.List_Lexorder" "HOL-Library.AList"
begin

unbundle bit_operations_syntax

section \<open>JavaScript values and string primitives\<close>

text \<open>
  The session and authentication code of the application (\<open>utils/auth.js\<close>,
  \<open>utils/session.js\<close>, \<open>utils/db.js\<close>, \<open>utils/auth-api.js\<close>) is embedded as HOL
  functions. A JavaScript exception is a value of \<open>js_error\<close> on the left of a sum.
  Header strings reach the code decoded as Latin-1, one \<open>char\<close> per character.
\<close>

datatype js_error = TypeError | RangeError | SyntaxError | SqliteError

type_synonym byte = "8 word"

text \<open>
  What \<open>JSON.parse\<close> yields for a member of a request body. A number is given by its
  value. \<open>json_truthy\<close> is the truthiness JavaScript gives the value.
\<close>

datatype jsonval =
  JNull | JBool bool | JNumber rat | JString string
  | JArray "jsonval list" | JObject "(string \<times> jsonval) list"

definition json_truthy :: "jsonval \<Rightarrow> bool" where
  "json_truthy v =
     (case v of
        JNull \<Rightarrow> False
      | JBool b \<Rightarrow> b
      | JNumber n \<Rightarrow> n \<noteq> 0
      | JString s \<Rightarrow> s \<noteq> []
      | JArray xs \<Rightarrow> True
      | JObject kvs \<Rightarrow> True)"

text \<open>
  \<open>String.prototype.split\<close> with a one-character separator. The result is never the
  empty array (\<open>split_on_not_Nil\<close>), so the \<open>[]\<close> branch below is never taken.
\<close>

fun split_on :: "char \<Rightarrow> string \<Rightarrow> string list" where
  "split_on c [] = [[]]"
| "split_on c (x # xs) =
     (if x = c then [] # split_on c xs
      else (case split_on c xs of
              [] \<Rightarrow> [[x]]
            | s # ss \<Rightarrow> (x # s) # ss))"

text \<open>\<open>Array.prototype.join\<close>.\<close>

fun join :: "string \<Rightarrow> string list \<Rightarrow> string" where
  "join sep [] = []"
| "join sep [s] = s"
| "join sep (s # t # ts) = s @ sep @ join sep (t # ts)"

text \<open>
  \<open>String.prototype.trim\<close>: the white space and line terminators of ECMAScript that
  exist in Latin-1 are TAB, LF, VT, FF, CR, SPACE and NBSP.
\<close>

definition is_ws :: "char \<Rightarrow> bool" where
  "is_ws c = (of_char c \<in> {9, 10, 11, 12, 13, 32, 160 :: nat})"

definition trim :: "string \<Rightarrow> string" where
  "trim s = rev (dropWhile is_ws (rev (dropWhile is_ws s)))"

section \<open>Session cookie adapter (\<open>utils/session.js\<close>)\<close>

definition COOKIE_NAME :: string where
  "COOKIE_NAME = ''session_token''"

definition SESSION_DURATION :: nat where
  "SESSION_DURATION = 24 * 60 * 60 * 1000"

text \<open>
  The part of the incoming request the code reads: method, path of the URL, the
  \<open>Cookie\<close> header (\<open>None\<close> when the header is absent) and the JSON body.
  The body is given as the outcome of \<open>JSON.parse(body)\<close> followed by the
  destructuring of \<open>email\<close>, \<open>password\<close> and \<open>fullName\<close>: \<open>None\<close> when that throws,
  otherwise the three members, each \<open>None\<close> when undefined and else any JSON value.
\<close>

record credentials =
  cr_email :: "jsonval option"
  cr_password :: "jsonval option"
  cr_fullName :: "jsonval option"

record request =
  req_method :: string
  req_pathname :: string
  req_cookie :: "string option"
  req_body :: "credentials option"

text \<open>
  An own property assignment \<open>cookies[k] = v\<close> on a plain object. The key
  \<open>__proto__\<close> hits the inherited setter, which ignores a string.
\<close>

definition assign :: "(string \<rightharpoonup> string) \<Rightarrow> string \<Rightarrow> string \<Rightarrow> (string \<rightharpoonup> string)" where
  "assign cookies k v = (if k = ''__proto__'' then cookies else cookies(k \<mapsto> v))"

text \<open>
  The body of the \<open>forEach\<close> callback of \<open>parseCookies\<close>:
  \<open>const [name, ...rest] = cookie.split('='); cookies[name.trim()] = rest.join('=').trim()\<close>.
  \<open>name.trim()\<close> throws a TypeError when \<open>name\<close> is undefined.
\<close>

definition parse_cookie_segment ::
  "(string \<rightharpoonup> string) \<Rightarrow> string \<Rightarrow> js_error + (string \<rightharpoonup> string)" where
  "parse_cookie_segment cookies cookie =
     (case split_on CHR ''='' cookie of
        [] \<Rightarrow> Inl TypeError
      | name # rest \<Rightarrow> Inr (assign cookies (trim name) (trim (join ''='' rest))))"

fun parse_cookie_segments ::
  "(string \<rightharpoonup> string) \<Rightarrow> string list \<Rightarrow> js_error + (string \<rightharpoonup> string)" where
  "parse_cookie_segments cookies [] = Inr cookies"
| "parse_cookie_segments cookies (cookie # others) =
     (case parse_cookie_segment cookies cookie of
        Inl e \<Rightarrow> Inl e
      | Inr cookies' \<Rightarrow> parse_cookie_segments cookies' others)"

definition parseCookies :: "request \<Rightarrow> js_error + (string \<rightharpoonup> string)" where
  "parseCookies req =
     (case req_cookie req of
        None \<Rightarrow> Inr Map.empty
      | Some cookieHeader \<Rightarrow>
          if cookieHeader = [] then Inr Map.empty
          else parse_cookie_segments Map.empty (split_on CHR '';'' cookieHeader))"

text \<open>\<open>cookies[COOKIE_NAME] || null\<close>: the empty string is falsy.\<close>

definition getSessionToken :: "request \<Rightarrow> js_error + string option" where
  "getSessionToken req =
     (case parseCookies req of
        Inl e \<Rightarrow> Inl e
      | Inr cookies \<Rightarrow>
          (case cookies COOKIE_NAME of
             None \<Rightarrow> Inr None
           | Some v \<Rightarrow> if v = [] then Inr None else Inr (Some v)))"

text \<open>
  The options object of \<open>setSessionCookie\<close>. A member is \<open>None\<close> when it is undefined,
  which is when the destructuring default applies; \<open>httpOnly\<close> and \<open>secure\<close> carry the
  truthiness of the value given.
\<close>

record cookie_options =
  opt_maxAge :: "nat option"
  opt_httpOnly :: "bool option"
  opt_secure :: "bool option"
  opt_sameSite :: "string option"
  opt_path :: "string option"

definition no_options :: cookie_options where
  "no_options = \<lparr>opt_maxAge = None, opt_httpOnly = None, opt_secure = None,
     opt_sameSite = None, opt_path = None\<rparr>"

text \<open>Decimal rendering of a non-negative integer in a template literal.\<close>

definition digit_char :: "nat \<Rightarrow> char" where
  "digit_char d = ''0123456789'' ! d"

fun digits_of :: "nat \<Rightarrow> string" where
  "digits_of n =
     (if n < 10 then [digit_char n]
      else digits_of (n div 10) @ [digit_char (n mod 10)])"

declare digits_of.simps [simp del]

text \<open>
  \<open>setSessionCookie\<close> returns the value it passes to \<open>res.setHeader('Set-Cookie', ...)\<close>.
  \<open>NODE_ENV\<close> is \<open>process.env.NODE_ENV\<close>.
\<close>

definition setSessionCookie :: "string option \<Rightarrow> string \<Rightarrow> cookie_options \<Rightarrow> string" where
  "setSessionCookie NODE_ENV token options =
     (let maxAge = (case opt_maxAge options of None \<Rightarrow> SESSION_DURATION div 1000 | Some m \<Rightarrow> m);
          httpOnly = (case opt_httpOnly options of None \<Rightarrow> True | Some b \<Rightarrow> b);
          secure = (case opt_secure options of None \<Rightarrow> NODE_ENV = Some ''production'' | Some b \<Rightarrow> b);
          sameSite = (case opt_sameSite options of None \<Rightarrow> ''Lax'' | Some s \<Rightarrow> s);
          path = (case opt_path options of None \<Rightarrow> ''/'' | Some p \<Rightarrow> p)
      in COOKIE_NAME @ ''='' @ token @ ''; Max-Age='' @ digits_of maxAge @ ''; Path='' @ path
         @ ''; SameSite='' @ sameSite @ (if httpOnly then ''; HttpOnly'' else '''')
         @ (if secure then ''; Secure'' else ''''))"

definition clearSessionCookie :: string where
  "clearSessionCookie = COOKIE_NAME @ ''=; Max-Age=0; Path=/''"

text \<open>The attributes of a \<open>Set-Cookie\<close> value: what follows the first \<open>;\<close>, trimmed.\<close>

definition cookie_attributes :: "string \<Rightarrow> string list" where
  "cookie_attributes header = map trim (tl (split_on CHR '';'' header))"

section \<open>Credential hasher (\<open>utils/auth.js\<close>)\<close>

text \<open>\<open>buf.toString('hex')\<close>: two lower-case digits for each byte.\<close>

definition hex_digit :: "nat \<Rightarrow> char" where
  "hex_digit n = ''0123456789abcdef'' ! n"

definition toHex :: "byte list \<Rightarrow> string" where
  "toHex bs = concat (map (\<lambda>b. [hex_digit (unat b div 16), hex_digit (unat b mod 16)]) bs)"

text \<open>
  \<open>Buffer.from(s, 'hex')\<close>: pairs of hexadecimal digits of either case are decoded
  until the first pair that is not one; a trailing single character is dropped.
\<close>

definition unhex :: "char \<Rightarrow> nat option" where
  "unhex c =
     (let n = of_char c :: nat
      in if 48 \<le> n \<and> n \<le> 57 then Some (n - 48)
         else if 97 \<le> n \<and> n \<le> 102 then Some (n - 87)
         else if 65 \<le> n \<and> n \<le> 70 then Some (n - 55)
         else None)"

fun fromHex :: "string \<Rightarrow> byte list" where
  "fromHex (a # b # rest) =
     (case unhex a of
        None \<Rightarrow> []
      | Some hi \<Rightarrow>
          (case unhex b of
             None \<Rightarrow> []
           | Some lo \<Rightarrow> of_nat (hi * 16 + lo) # fromHex rest))"
| "fromHex _ = []"

text \<open>
  \<open>crypto.timingSafeEqual\<close> throws a RangeError when the byte lengths differ.
\<close>

definition timingSafeEqual :: "byte list \<Rightarrow> byte list \<Rightarrow> js_error + bool" where
  "timingSafeEqual a b = (if length a \<noteq> length b then Inl RangeError else Inr (a = b))"

text \<open>
  \<open>crypto.pbkdf2Sync(password, salt, iterations, keylen, 'sha512')\<close> belongs to the
  platform and is a parameter, as are the 16 bytes that \<open>crypto.randomBytes(16)\<close>
  returns.
\<close>

type_synonym kdf = "string \<Rightarrow> string \<Rightarrow> nat \<Rightarrow> nat \<Rightarrow> byte list"

definition hashPassword :: "kdf \<Rightarrow> byte list \<Rightarrow> string \<Rightarrow> string" where
  "hashPassword pbkdf2Sync randomBytes16 password =
     (let salt = toHex randomBytes16;
          hash = toHex (pbkdf2Sync password salt 100000 64)
      in salt @ '':'' @ hash)"

text \<open>
  \<open>const [salt, originalHash] = storedHash.split(':')\<close>: with no separator
  \<open>originalHash\<close> is undefined and \<open>Buffer.from(undefined, 'hex')\<close> throws a TypeError.
\<close>

definition verifyPassword :: "kdf \<Rightarrow> string \<Rightarrow> string \<Rightarrow> js_error + bool" where
  "verifyPassword pbkdf2Sync password storedHash =
     (case split_on CHR '':'' storedHash of
        [] \<Rightarrow> Inl TypeError
      | [salt] \<Rightarrow> Inl TypeError
      | salt # originalHash # _ \<Rightarrow>
          (let hash = toHex (pbkdf2Sync password salt 100000 64)
           in timingSafeEqual (fromHex originalHash) (fromHex hash)))"

text \<open>
  For one concrete pair of passwords the key derivation itself is needed. Node computes
  \<open>pbkdf2Sync(password, salt, c, dkLen, 'sha512')\<close> as PBKDF2 (RFC 8018, section 5.2)
  over HMAC (RFC 2104) with SHA-512: block size 128 bytes, output 64 bytes. The
  compression function \<open>H\<close> stays a parameter. A string is given to the derivation as
  its bytes.
\<close>

definition string_bytes :: "string \<Rightarrow> byte list" where
  "string_bytes s = map of_char s"

definition hmac_key :: "(byte list \<Rightarrow> byte list) \<Rightarrow> nat \<Rightarrow> byte list \<Rightarrow> byte list" where
  "hmac_key H B key =
     (let k = (if B < length key then H key else key)
      in k @ replicate (B - length k) 0)"

definition hmac :: "(byte list \<Rightarrow> byte list) \<Rightarrow> nat \<Rightarrow> byte list \<Rightarrow> byte list \<Rightarrow> byte list" where
  "hmac H B key msg =
     H (map (\<lambda>b. b XOR 0x5c) (hmac_key H B key)
        @ H (map (\<lambda>b. b XOR 0x36) (hmac_key H B key) @ msg))"

definition int32be :: "nat \<Rightarrow> byte list" where
  "int32be i = [of_nat (i div 2 ^ 24), of_nat (i div 2 ^ 16), of_nat (i div 2 ^ 8), of_nat i]"

fun pbkdf2_iter :: "(byte list \<Rightarrow> byte list) \<Rightarrow> nat \<Rightarrow> byte list \<Rightarrow> byte list \<Rightarrow> byte list" where
  "pbkdf2_iter prf 0 u acc = acc"
| "pbkdf2_iter prf (Suc n) u acc =
     (let u' = prf u in pbkdf2_iter prf n u' (map2 (XOR) acc u'))"

definition pbkdf2_block :: "(byte list \<Rightarrow> byte list) \<Rightarrow> byte list \<Rightarrow> nat \<Rightarrow> nat \<Rightarrow> byte list" where
  "pbkdf2_block prf salt c i =
     (let u1 = prf (salt @ int32be i) in pbkdf2_iter prf (c - 1) u1 u1)"

definition pbkdf2 ::
  "(byte list \<Rightarrow> byte list) \<Rightarrow> nat \<Rightarrow> byte list \<Rightarrow> nat \<Rightarrow> nat \<Rightarrow> byte list" where
  "pbkdf2 prf hLen salt c dkLen =
     take dkLen (concat (map (pbkdf2_block prf salt c) [1 ..< Suc ((dkLen + hLen - 1) div hLen)]))"

definition pbkdf2_sha512 :: "(byte list \<Rightarrow> byte list) \<Rightarrow> kdf" where
  "pbkdf2_sha512 H password salt iterations keylen =
     pbkdf2 (hmac H 128 (string_bytes password)) 64 (string_bytes salt) iterations keylen"

section \<open>Storage (\<open>db/schema.sql\<close>, \<open>utils/db.js\<close>)\<close>

text \<open>
  The rows of the tables \<open>users\<close> and \<open>sessions\<close>. A TEXT column holds text and an
  INTEGER column an integer; a nullable column is an option. The timestamps that
  \<open>CURRENT_TIMESTAMP\<close> writes (\<open>created_at\<close>, \<open>updated_at\<close>, \<open>last_login\<close>) are kept as
  that text: they take part in no comparison.

  \<open>sessions.expires_at\<close> is declared \<open>DATETIME\<close>, which gives the column NUMERIC affinity:
  a text that looks like a number is converted when it is written and is stored as a
  number, any other text is stored as text. The column is therefore modelled with the
  storage class of the value. SQLite orders every number before every text and every
  text before every blob, numbers by value, texts and blobs bytewise (\<open>sql_less\<close>). On
  the fixed-width text that \<open>toISOString\<close> produces the order of the texts is the order
  of the instants.
\<close>

datatype sql_value = SqlNumber rat | SqlText string | SqlBlob "byte list"

fun sql_less :: "sql_value \<Rightarrow> sql_value \<Rightarrow> bool" where
  "sql_less (SqlNumber a) (SqlNumber b) = (a < b)"
| "sql_less (SqlNumber a) (SqlText t) = True"
| "sql_less (SqlNumber a) (SqlBlob c) = True"
| "sql_less (SqlText s) (SqlNumber b) = False"
| "sql_less (SqlText s) (SqlText t) = (s < t)"
| "sql_less (SqlText s) (SqlBlob c) = True"
| "sql_less (SqlBlob b) (SqlNumber n) = False"
| "sql_less (SqlBlob b) (SqlText t) = False"
| "sql_less (SqlBlob b) (SqlBlob c) = (b < c)"

record user_row =
  u_id :: int
  u_email :: string
  u_password_hash :: string
  u_full_name :: "string option"
  u_meta :: "string option"
  u_created_at :: "string option"
  u_updated_at :: "string option"
  u_last_login :: "string option"
  u_is_active :: "int option"
  u_role :: "string option"

record session_row =
  s_id :: int
  s_user_id :: int
  s_token :: string
  s_expires_at :: sql_value
  s_created_at :: "string option"

text \<open>
  The database: both tables in rowid order and, for each, the largest rowid that
  AUTOINCREMENT has handed out.
\<close>

record store =
  users :: "user_row list"
  sessions :: "session_row list"
  users_seq :: int
  sessions_seq :: int

text \<open>
  A value of a result row as JavaScript sees it; \<open>Json\<close> is what \<open>JSON.parse\<close> returned.
  An object is the list of its own properties in insertion order.
\<close>

datatype 'j jsval = Null | Num int | Str string | Json 'j

type_synonym 'j obj = "(string \<times> 'j jsval) list"

definition opt_str :: "string option \<Rightarrow> 'j jsval" where
  "opt_str v = (case v of None \<Rightarrow> Null | Some s \<Rightarrow> Str s)"

definition opt_num :: "int option \<Rightarrow> 'j jsval" where
  "opt_num v = (case v of None \<Rightarrow> Null | Some n \<Rightarrow> Num n)"

text \<open>JavaScript truthiness of a property read; a missing property is undefined.\<close>

definition truthy :: "'j jsval option \<Rightarrow> bool" where
  "truthy v =
     (case v of
        None \<Rightarrow> False
      | Some Null \<Rightarrow> False
      | Some (Num n) \<Rightarrow> n \<noteq> 0
      | Some (Str s) \<Rightarrow> s \<noteq> []
      | Some (Json j) \<Rightarrow> True)"

text \<open>\<open>SELECT * FROM users\<close>.\<close>

definition select_all :: "user_row \<Rightarrow> 'j obj" where
  "select_all r =
     [(''id'', Num (u_id r)), (''email'', Str (u_email r)),
      (''password_hash'', Str (u_password_hash r)), (''full_name'', opt_str (u_full_name r)),
      (''meta'', opt_str (u_meta r)), (''created_at'', opt_str (u_created_at r)),
      (''updated_at'', opt_str (u_updated_at r)), (''last_login'', opt_str (u_last_login r)),
      (''is_active'', opt_num (u_is_active r)), (''role'', opt_str (u_role r))]"

text \<open>
  \<open>SELECT id, email, full_name, meta, created_at, last_login, is_active, role FROM users\<close>.
\<close>

definition select_public :: "user_row \<Rightarrow> 'j obj" where
  "select_public r =
     [(''id'', Num (u_id r)), (''email'', Str (u_email r)),
      (''full_name'', opt_str (u_full_name r)), (''meta'', opt_str (u_meta r)),
      (''created_at'', opt_str (u_created_at r)), (''last_login'', opt_str (u_last_login r)),
      (''is_active'', opt_num (u_is_active r)), (''role'', opt_str (u_role r))]"

text \<open>
  What the platform provides besides the key derivation: \<open>JSON.parse\<close> (\<open>None\<close> when it
  throws a SyntaxError), \<open>new Date(ms).toISOString()\<close>, SQLite's \<open>CURRENT_TIMESTAMP\<close> at a
  given instant, \<open>process.env.NODE_ENV\<close>, and two conversions of SQLite:
  \<open>sqlite_numeric\<close> gives the number a text is converted to under NUMERIC affinity
  (\<open>None\<close> when the text is not a well-formed number and stays text), and
  \<open>number_text\<close> gives the text a bound number is converted to under TEXT affinity.
\<close>

record 'j platform =
  jsonParse :: "string \<Rightarrow> 'j option"
  pbkdf2Sync :: kdf
  toISOString :: "nat \<Rightarrow> string"
  current_timestamp :: "nat \<Rightarrow> string"
  node_env :: "string option"
  sqlite_numeric :: "string \<Rightarrow> rat option"
  number_text :: "rat \<Rightarrow> string"

text \<open>
  A text bound to a statement and compared with, or written to, a column of NUMERIC
  affinity.
\<close>

definition with_numeric_affinity :: "'j platform \<Rightarrow> string \<Rightarrow> sql_value" where
  "with_numeric_affinity pf t =
     (case sqlite_numeric pf t of None \<Rightarrow> SqlText t | Some n \<Rightarrow> SqlNumber n)"

text \<open>
  What \<open>node:sqlite\<close> binds for an anonymous parameter: null, a number or a string;
  every other value makes the call throw a TypeError. \<open>as_text\<close> is the bound value
  under the TEXT affinity of the column it meets (\<open>None\<close> for NULL).
\<close>

datatype sql_param = PNull | PNumber rat | PText string

definition bind_value :: "jsonval \<Rightarrow> js_error + sql_param" where
  "bind_value v =
     (case v of
        JNull \<Rightarrow> Inr PNull
      | JNumber n \<Rightarrow> Inr (PNumber n)
      | JString s \<Rightarrow> Inr (PText s)
      | _ \<Rightarrow> Inl TypeError)"

definition as_text :: "'j platform \<Rightarrow> sql_param \<Rightarrow> string option" where
  "as_text pf p =
     (case p of PNull \<Rightarrow> None | PNumber n \<Rightarrow> Some (number_text pf n) | PText s \<Rightarrow> Some s)"

text \<open>
  \<open>if (user && user.meta) { user.meta = JSON.parse(user.meta); }\<close> on a row that was
  found. The SyntaxError of \<open>JSON.parse\<close> is left to the caller's \<open>catch\<close>.
\<close>

definition parse_meta :: "'j platform \<Rightarrow> 'j obj \<Rightarrow> js_error + 'j obj" where
  "parse_meta pf user =
     (case map_of user ''meta'' of
        Some (Str m) \<Rightarrow>
          if m = [] then Inr user
          else (case jsonParse pf m of
                  None \<Rightarrow> Inl SyntaxError
                | Some j \<Rightarrow> Inr (AList.update ''meta'' (Json j) user))
      | _ \<Rightarrow> Inr user)"

text \<open>
  \<open>getUserById\<close> and \<open>getUserByEmail\<close>: \<open>None\<close> is both the undefined of a lookup that
  finds no row and the null returned from the \<open>catch\<close> block.

  \<open>stmt.get(email)\<close> takes an array or an object in first place as the named
  parameters: with a key it throws (the statement has no named parameter), without
  one the \<open>?\<close> stays NULL and no row matches. Any other value is bound, or the call
  throws, as \<open>bind_value\<close> says; the comparison with the \<open>email\<close> column is by text.
\<close>

definition email_key :: "'j platform \<Rightarrow> jsonval \<Rightarrow> string option" where
  "email_key pf email =
     (case email of
        JArray xs \<Rightarrow> None
      | JObject kvs \<Rightarrow> None
      | _ \<Rightarrow> (case bind_value email of Inl e \<Rightarrow> None | Inr p \<Rightarrow> as_text pf p))"

definition getUserById :: "'j platform \<Rightarrow> store \<Rightarrow> int \<Rightarrow> 'j obj option" where
  "getUserById pf db uid =
     (case find (\<lambda>r. u_id r = uid) (users db) of
        None \<Rightarrow> None
      | Some r \<Rightarrow>
          (case parse_meta pf (select_public r) of
             Inl e \<Rightarrow> None
           | Inr user \<Rightarrow> Some user))"

definition getUserByEmail :: "'j platform \<Rightarrow> store \<Rightarrow> jsonval \<Rightarrow> 'j obj option" where
  "getUserByEmail pf db email =
     (case email_key pf email of
        None \<Rightarrow> None
      | Some key \<Rightarrow>
          (case find (\<lambda>r. u_email r = key) (users db) of
             None \<Rightarrow> None
           | Some r \<Rightarrow>
               (case parse_meta pf (select_all r) of
                  Inl e \<Rightarrow> None
                | Inr user \<Rightarrow> Some user)))"

text \<open>The rowid AUTOINCREMENT gives to the next row of a table.\<close>

definition next_rowid :: "int list \<Rightarrow> int \<Rightarrow> int" where
  "next_rowid ids seq = fold max ids seq + 1"

text \<open>
  The INSERT of \<open>createUser\<close> with the four values as bound: it fails on the NOT NULL
  constraints of \<open>email\<close> and \<open>password_hash\<close> and on the UNIQUE constraint of \<open>email\<close>.
  The columns have TEXT affinity; those not named take their defaults.
\<close>

definition insert_user ::
  "'j platform \<Rightarrow> store \<Rightarrow> nat \<Rightarrow> sql_param \<Rightarrow> sql_param \<Rightarrow> sql_param \<Rightarrow> sql_param
     \<Rightarrow> js_error + store \<times> int" where
  "insert_user pf db now email passwordHash fullName metaJson =
     (case as_text pf email of
        None \<Rightarrow> Inl SqliteError
      | Some e \<Rightarrow>
     (case as_text pf passwordHash of
        None \<Rightarrow> Inl SqliteError
      | Some h \<Rightarrow>
          if \<exists>r \<in> set (users db). u_email r = e then Inl SqliteError
          else
            (let rowid = next_rowid (map u_id (users db)) (users_seq db);
                 row = \<lparr>u_id = rowid, u_email = e, u_password_hash = h,
                        u_full_name = as_text pf fullName, u_meta = as_text pf metaJson,
                        u_created_at = Some (current_timestamp pf now),
                        u_updated_at = Some (current_timestamp pf now),
                        u_last_login = None, u_is_active = Some 1, u_role = Some ''user''\<rparr>
             in Inr (db\<lparr>users := users db @ [row], users_seq := rowid\<rparr>, rowid))))"

text \<open>
  \<open>createUser\<close>: \<open>stmt.run(email, passwordHash, fullName, metaJson)\<close>, where \<open>metaJson\<close>
  is \<open>JSON.stringify(meta)\<close> and \<open>fullName\<close> is a JSON value or null. An \<open>email\<close> that
  is an array or an object is taken as the named parameters: with a key the call
  throws; without one the three values that follow fill the first three \<open>?\<close> and the
  fourth stays NULL. The \<open>catch\<close> block turns every failure into null.
\<close>

definition createUser ::
  "'j platform \<Rightarrow> store \<Rightarrow> nat \<Rightarrow> jsonval \<Rightarrow> string \<Rightarrow> jsonval \<Rightarrow> string
     \<Rightarrow> store \<times> int option" where
  "createUser pf db now email passwordHash fullName metaJson =
     (case (case email of
              JArray xs \<Rightarrow>
                if xs \<noteq> [] then Inl TypeError
                else (case bind_value fullName of
                        Inl e \<Rightarrow> Inl e
                      | Inr fn \<Rightarrow>
                          insert_user pf db now (PText passwordHash) fn (PText metaJson) PNull)
            | JObject kvs \<Rightarrow>
                if kvs \<noteq> [] then Inl TypeError
                else (case bind_value fullName of
                        Inl e \<Rightarrow> Inl e
                      | Inr fn \<Rightarrow>
                          insert_user pf db now (PText passwordHash) fn (PText metaJson) PNull)
            | _ \<Rightarrow>
                (case bind_value email of
                   Inl e \<Rightarrow> Inl e
                 | Inr em \<Rightarrow>
                     (case bind_value fullName of
                        Inl e \<Rightarrow> Inl e
                      | Inr fn \<Rightarrow>
                          insert_user pf db now em (PText passwordHash) fn (PText metaJson)))) of
        Inl e \<Rightarrow> (db, None)
      | Inr (db', rowid) \<Rightarrow> (db', Some rowid))"

text \<open>
  \<open>updateLastLogin\<close>; the trigger \<open>update_users_timestamp\<close> refreshes \<open>updated_at\<close>.
\<close>

definition updateLastLogin :: "'j platform \<Rightarrow> store \<Rightarrow> nat \<Rightarrow> int \<Rightarrow> store" where
  "updateLastLogin pf db now userId =
     db\<lparr>users := map (\<lambda>r. if u_id r = userId
                            then r\<lparr>u_last_login := Some (current_timestamp pf now),
                                   u_updated_at := Some (current_timestamp pf now)\<rparr>
                            else r) (users db)\<rparr>"

section \<open>Session store (\<open>utils/session.js\<close>)\<close>

text \<open>
  \<open>createSession\<close>: \<open>randomBytes32\<close> is what \<open>crypto.randomBytes(32)\<close> returns. The
  INSERT throws on the UNIQUE constraint of \<open>token\<close> and on the foreign key of
  \<open>user_id\<close>, which \<open>node:sqlite\<close> enforces by default; nothing here catches it.
\<close>

definition createSession ::
  "'j platform \<Rightarrow> store \<Rightarrow> nat \<Rightarrow> byte list \<Rightarrow> int \<Rightarrow> js_error + store \<times> string" where
  "createSession pf db now randomBytes32 userId =
     (let token = toHex randomBytes32;
          expiresAt = toISOString pf (now + SESSION_DURATION)
      in if (\<exists>s \<in> set (sessions db). s_token s = token)
            \<or> \<not> (\<exists>r \<in> set (users db). u_id r = userId)
         then Inl SqliteError
         else
           (let rowid = next_rowid (map s_id (sessions db)) (sessions_seq db);
                row = \<lparr>s_id = rowid, s_user_id = userId, s_token = token,
                       s_expires_at = with_numeric_affinity pf expiresAt,
                       s_created_at = Some (current_timestamp pf now)\<rparr>
            in Inr (db\<lparr>sessions := sessions db @ [row], sessions_seq := rowid\<rparr>, token)))"

text \<open>
  \<open>validateSession\<close>: \<open>SELECT * FROM sessions WHERE token = ? AND expires_at > ?\<close> with
  the current instant as ISO text, bound to a column of NUMERIC affinity, then
  \<open>getUserById\<close>.
\<close>

definition validateSession :: "'j platform \<Rightarrow> store \<Rightarrow> nat \<Rightarrow> string \<Rightarrow> 'j obj option" where
  "validateSession pf db now token =
     (if token = [] then None
      else
        (case find (\<lambda>s. s_token s = token
                         \<and> sql_less (with_numeric_affinity pf (toISOString pf now)) (s_expires_at s))
                (sessions db) of
           None \<Rightarrow> None
         | Some session \<Rightarrow>
             (case getUserById pf db (s_user_id session) of
                None \<Rightarrow> None
              | Some user \<Rightarrow>
                  if \<not> truthy (map_of user ''is_active'') then None else Some user)))"

definition deleteSession :: "store \<Rightarrow> string \<Rightarrow> store" where
  "deleteSession db token = db\<lparr>sessions := filter (\<lambda>s. s_token s \<noteq> token) (sessions db)\<rparr>"

definition deleteAllUserSessions :: "store \<Rightarrow> int \<Rightarrow> store" where
  "deleteAllUserSessions db userId =
     db\<lparr>sessions := filter (\<lambda>s. s_user_id s \<noteq> userId) (sessions db)\<rparr>"

text \<open>
  \<open>DELETE FROM sessions WHERE expires_at < ?\<close> with the current instant as ISO text,
  bound to a column of NUMERIC affinity.
\<close>

definition cleanupExpiredSessions :: "'j platform \<Rightarrow> store \<Rightarrow> nat \<Rightarrow> store" where
  "cleanupExpiredSessions pf db now =
     db\<lparr>sessions :=
          filter (\<lambda>s. \<not> sql_less (s_expires_at s) (with_numeric_affinity pf (toISOString pf now)))
            (sessions db)\<rparr>"

definition getCurrentUser :: "'j platform \<Rightarrow> store \<Rightarrow> nat \<Rightarrow> request \<Rightarrow> js_error + 'j obj option" where
  "getCurrentUser pf db now req =
     (case getSessionToken req of
        Inl e \<Rightarrow> Inl e
      | Inr None \<Rightarrow> Inr None
      | Inr (Some token) \<Rightarrow> Inr (validateSession pf db now token))"

section \<open>Auth request handler (\<open>utils/auth-api.js\<close>)\<close>

text \<open>
  A response: the status given to \<open>res.writeHead\<close>, the \<open>Set-Cookie\<close> header if
  \<open>res.setHeader\<close> set one, and the object given to \<open>JSON.stringify\<close> for the body:
  \<open>{error}\<close>, \<open>{success: true, user}\<close>, \<open>{success: true}\<close> or the user itself.
\<close>

datatype 'j body = ErrorBody string | SuccessUserBody "'j obj" | SuccessBody | UserBody "'j obj"

record 'j response =
  status :: nat
  set_cookie :: "string option"
  body :: "'j body"

definition respond :: "nat \<Rightarrow> string option \<Rightarrow> 'j body \<Rightarrow> 'j response" where
  "respond code cookie b = \<lparr>status = code, set_cookie = cookie, body = b\<rparr>"

text \<open>The user object inside a response body, if the body has one.\<close>

definition body_user :: "'j body \<Rightarrow> 'j obj option" where
  "body_user b =
     (case b of SuccessUserBody user \<Rightarrow> Some user | UserBody user \<Rightarrow> Some user | _ \<Rightarrow> None)"

text \<open>
  The \<open>end\<close> callback of \<open>POST /api/auth/register\<close>. Its \<open>catch\<close> block answers 400
  \<open>Invalid request\<close> to every exception: a body that does not parse, \<open>hashPassword\<close> on
  a password that is not a string (\<open>pbkdf2Sync\<close> throws a TypeError), a failed
  \<open>createSession\<close>, and \<open>delete user.password_hash\<close> on a user that is null (by then
  the cookie header is set).
\<close>

definition register_end ::
  "'j platform \<Rightarrow> store \<Rightarrow> nat \<Rightarrow> byte list \<Rightarrow> byte list \<Rightarrow> request
     \<Rightarrow> store \<times> 'j response" where
  "register_end pf db now randomBytes16 randomBytes32 req =
     (case req_body req of
        None \<Rightarrow> (db, respond 400 None (ErrorBody ''Invalid request''))
      | Some creds \<Rightarrow>
          (case cr_email creds of
             None \<Rightarrow> (db, respond 400 None (ErrorBody ''Email and password are required''))
           | Some email \<Rightarrow>
          (case cr_password creds of
             None \<Rightarrow> (db, respond 400 None (ErrorBody ''Email and password are required''))
           | Some password \<Rightarrow>
          if \<not> json_truthy email \<or> \<not> json_truthy password
          then (db, respond 400 None (ErrorBody ''Email and password are required''))
          else
          (case getUserByEmail pf db email of
             Some existingUser \<Rightarrow> (db, respond 400 None (ErrorBody ''Email already registered''))
           | None \<Rightarrow>
          (case password of
             JString pw \<Rightarrow>
          (let passwordHash = hashPassword (pbkdf2Sync pf) randomBytes16 pw;
               fullName = (case cr_fullName creds of
                             None \<Rightarrow> JNull
                           | Some n \<Rightarrow> if json_truthy n then n else JNull)
           in case createUser pf db now email passwordHash fullName ''{}'' of
                (db1, None) \<Rightarrow> (db1, respond 500 None (ErrorBody ''Failed to create user''))
              | (db1, Some userId) \<Rightarrow>
          if userId = 0
          then (db1, respond 500 None (ErrorBody ''Failed to create user''))
          else
          (case createSession pf db1 now randomBytes32 userId of
             Inl e \<Rightarrow> (db1, respond 400 None (ErrorBody ''Invalid request''))
           | Inr (db2, token) \<Rightarrow>
          (let cookie = setSessionCookie (node_env pf) token no_options
           in case getUserByEmail pf db2 email of
                None \<Rightarrow> (db2, respond 400 (Some cookie) (ErrorBody ''Invalid request''))
              | Some user \<Rightarrow>
                  (db2, respond 200 (Some cookie)
                          (SuccessUserBody (AList.delete ''password_hash'' user))))))
           | _ \<Rightarrow> (db, respond 400 None (ErrorBody ''Invalid request'')))))))"

text \<open>
  The \<open>end\<close> callback of \<open>POST /api/auth/login\<close>. An exception of \<open>verifyPassword\<close> or
  \<open>createSession\<close> reaches the \<open>catch\<close> block: 400 \<open>Invalid request\<close>. With a password
  that is not a string \<open>verifyPassword\<close> always throws: \<open>pbkdf2Sync\<close> rejects it with a
  TypeError.
\<close>

definition login_end ::
  "'j platform \<Rightarrow> store \<Rightarrow> nat \<Rightarrow> byte list \<Rightarrow> request \<Rightarrow> store \<times> 'j response" where
  "login_end pf db now randomBytes32 req =
     (case req_body req of
        None \<Rightarrow> (db, respond 400 None (ErrorBody ''Invalid request''))
      | Some creds \<Rightarrow>
          (case cr_email creds of
             None \<Rightarrow> (db, respond 400 None (ErrorBody ''Email and password are required''))
           | Some email \<Rightarrow>
          (case cr_password creds of
             None \<Rightarrow> (db, respond 400 None (ErrorBody ''Email and password are required''))
           | Some password \<Rightarrow>
          if \<not> json_truthy email \<or> \<not> json_truthy password
          then (db, respond 400 None (ErrorBody ''Email and password are required''))
          else
          (case getUserByEmail pf db email of
             None \<Rightarrow> (db, respond 401 None (ErrorBody ''Invalid credentials''))
           | Some user \<Rightarrow>
          (case (case map_of user ''password_hash'' of
                   Some (Str storedHash) \<Rightarrow>
                     (case password of
                        JString pw \<Rightarrow> verifyPassword (pbkdf2Sync pf) pw storedHash
                      | _ \<Rightarrow> Inl TypeError)
                 | _ \<Rightarrow> Inl TypeError) of
             Inl e \<Rightarrow> (db, respond 400 None (ErrorBody ''Invalid request''))
           | Inr isValid \<Rightarrow>
          if \<not> isValid
          then (db, respond 401 None (ErrorBody ''Invalid credentials''))
          else if \<not> truthy (map_of user ''is_active'')
          then (db, respond 403 None (ErrorBody ''Account is inactive''))
          else
          (case map_of user ''id'' of
             Some (Num userId) \<Rightarrow>
               (case createSession pf db now randomBytes32 userId of
                  Inl e \<Rightarrow> (db, respond 400 None (ErrorBody ''Invalid request''))
                | Inr (db1, token) \<Rightarrow>
                    (let cookie = setSessionCookie (node_env pf) token no_options;
                         db2 = updateLastLogin pf db1 now userId
                     in (db2, respond 200 (Some cookie)
                                (SuccessUserBody (AList.delete ''password_hash'' user)))))
           | _ \<Rightarrow> (db, respond 400 None (ErrorBody ''Invalid request''))))))))"

text \<open>
  \<open>handleAuthRequest\<close>: \<open>Inr None\<close> when it returns false (not an auth route),
  otherwise the new database and the response written. For register and login the
  response is the one the \<open>end\<close> callback writes. An exception outside a \<open>try\<close> block
  propagates (\<open>Inl\<close>).
\<close>

definition handleAuthRequest ::
  "'j platform \<Rightarrow> store \<Rightarrow> nat \<Rightarrow> byte list \<Rightarrow> byte list \<Rightarrow> request
     \<Rightarrow> js_error + (store \<times> 'j response) option" where
  "handleAuthRequest pf db now randomBytes16 randomBytes32 req =
     (if req_pathname req = ''/api/auth/register'' \<and> req_method req = ''POST''
      then Inr (Some (register_end pf db now randomBytes16 randomBytes32 req))
      else if req_pathname req = ''/api/auth/login'' \<and> req_method req = ''POST''
      then Inr (Some (login_end pf db now randomBytes32 req))
      else if req_pathname req = ''/api/auth/logout'' \<and> req_method req = ''POST''
      then (case getSessionToken req of
              Inl e \<Rightarrow> Inl e
            | Inr None \<Rightarrow> Inr (Some (db, respond 200 (Some clearSessionCookie) SuccessBody))
            | Inr (Some token) \<Rightarrow>
                Inr (Some (deleteSession db token,
                           respond 200 (Some clearSessionCookie) SuccessBody)))
      else if req_pathname req = ''/api/auth/me'' \<and> req_method req = ''GET''
      then (case getSessionToken req of
              Inl e \<Rightarrow> Inl e
            | Inr token \<Rightarrow>
                (case (case token of None \<Rightarrow> None | Some t \<Rightarrow> validateSession pf db now t) of
                   None \<Rightarrow> Inr (Some (db, respond 401 None (ErrorBody ''Not authenticated'')))
                 | Some user \<Rightarrow>
                     Inr (Some (db, respond 200 None
                                      (UserBody (AList.delete ''password_hash'' user))))))
      else Inr None)"

section \<open>A platform for concrete runs\<close>

text \<open>
  The examples below run the code on a platform that is fixed as follows. The clock
  renders instants of January 1970 (milliseconds below \<open>31 * 86400000\<close>) as
  \<open>toISOString\<close> and \<open>CURRENT_TIMESTAMP\<close> do. \<open>JSON.parse\<close> accepts the text \<open>{}\<close>, with
  the value \<open>()\<close>, and rejects the others. The key derivation pads or cuts the bytes of
  password and salt to the length asked for; it stands in for PBKDF2 only where a run
  needs some digest, as \<open>example_hash\<close> stands in for the compression function of
  SHA-512 where a run goes through PBKDF2 itself. Of the numbers SQLite recognises
  in a text, the platform knows the plain decimal ones, and it renders a whole number
  the way SQLite renders a double.
\<close>

definition pad2 :: "nat \<Rightarrow> string" where
  "pad2 n = (if n < 10 then CHR ''0'' # digits_of n else digits_of n)"

definition pad3 :: "nat \<Rightarrow> string" where
  "pad3 n =
     (if n < 10 then ''00'' @ digits_of n
      else if n < 100 then CHR ''0'' # digits_of n
      else digits_of n)"

definition iso_january_1970 :: "nat \<Rightarrow> string" where
  "iso_january_1970 ms =
     ''1970-01-'' @ pad2 (ms div 86400000 + 1) @ ''T'' @ pad2 (ms div 3600000 mod 24)
     @ '':'' @ pad2 (ms div 60000 mod 60) @ '':'' @ pad2 (ms div 1000 mod 60)
     @ ''.'' @ pad3 (ms mod 1000) @ ''Z''"

definition sql_january_1970 :: "nat \<Rightarrow> string" where
  "sql_january_1970 ms =
     ''1970-01-'' @ pad2 (ms div 86400000 + 1) @ '' '' @ pad2 (ms div 3600000 mod 24)
     @ '':'' @ pad2 (ms div 60000 mod 60) @ '':'' @ pad2 (ms div 1000 mod 60)"

definition example_hash :: "byte list \<Rightarrow> byte list" where
  "example_hash m = take 64 (m @ replicate 64 0)"

definition example_kdf :: kdf where
  "example_kdf password salt iterations keylen =
     take keylen (string_bytes password @ string_bytes salt @ replicate keylen 0)"

definition example_numeric :: "string \<Rightarrow> rat option" where
  "example_numeric t =
     (if t \<noteq> [] \<and> list_all (\<lambda>c. c \<in> set ''0123456789'') t
      then Some (of_nat (fold (\<lambda>c n. 10 * n + (of_char c - 48)) t 0))
      else None)"

definition example_number_text :: "rat \<Rightarrow> string" where
  "example_number_text n = digits_of (nat \<lfloor>n\<rfloor>) @ ''.0''"

definition example_platform :: "unit platform" where
  "example_platform =
     \<lparr>jsonParse = (\<lambda>s. if s = ''{}'' then Some () else None),
      pbkdf2Sync = example_kdf,
      toISOString = iso_january_1970,
      current_timestamp = sql_january_1970,
      node_env = None,
      sqlite_numeric = example_numeric,
      number_text = example_number_text\<rparr>"

definition empty_store :: store where
  "empty_store = \<lparr>users = [], sessions = [], users_seq = 0, sessions_seq = 0\<rparr>"

text \<open>
  A user row as \<open>createUser\<close> writes it, with the given metadata text and active flag,
  and a session row for it.
\<close>

definition example_user :: "string \<Rightarrow> string option \<Rightarrow> int option \<Rightarrow> user_row" where
  "example_user passwordHash metaJson active =
     \<lparr>u_id = 1, u_email = ''a@b.com'', u_password_hash = passwordHash,
      u_full_name = None, u_meta = metaJson,
      u_created_at = Some ''1970-01-01 00:00:00'', u_updated_at = Some ''1970-01-01 00:00:00'',
      u_last_login = None, u_is_active = active, u_role = Some ''user''\<rparr>"

definition example_session :: "int \<Rightarrow> string \<Rightarrow> sql_value \<Rightarrow> session_row" where
  "example_session rowid token expiresAt =
     \<lparr>s_id = rowid, s_user_id = 1, s_token = token, s_expires_at = expiresAt,
      s_created_at = Some ''1970-01-01 00:00:00''\<rparr>"


section \<open>Properties of the string primitives\<close>

lemma split_on_not_Nil: "split_on c s \<noteq> []"
  by (induction s) (auto split: list.splits)

lemma split_on_append:
  "split_on c (xs @ c # ys) = split_on c xs @ split_on c ys"
  by (induction xs) (auto simp: split_on_not_Nil split: list.splits)

lemma split_on_no_sep: "c \<notin> set s \<Longrightarrow> split_on c s = [s]"
  by (induction s) auto

section \<open>Extracting the session token\<close>

lemma parse_cookie_segment_total:
  "\<exists>m'. parse_cookie_segment m seg = Inr m'"
  by (cases "split_on CHR ''='' seg") (auto simp: parse_cookie_segment_def split_on_not_Nil)

lemma parse_cookie_segments_total:
  "\<exists>m'. parse_cookie_segments m segs = Inr m'"
proof (induction segs arbitrary: m)
  case Nil
  show ?case by simp
next
  case (Cons seg segs)
  obtain m1 where "parse_cookie_segment m seg = Inr m1"
    using parse_cookie_segment_total by blast
  with Cons show ?case by simp
qed

lemma parse_cookie_segment_other:
  "trim (hd (split_on CHR ''='' seg)) \<noteq> k \<Longrightarrow> parse_cookie_segment m seg = Inr m' \<Longrightarrow> m' k = m k"
  by (cases "split_on CHR ''='' seg") (auto simp: parse_cookie_segment_def assign_def split: if_splits)

lemma parse_cookie_segments_other:
  "\<forall>seg \<in> set segs. trim (hd (split_on CHR ''='' seg)) \<noteq> k \<Longrightarrow>
   parse_cookie_segments m segs = Inr m' \<Longrightarrow> m' k = m k"
proof (induction segs arbitrary: m)
  case Nil
  then show ?case by simp
next
  case (Cons seg segs)
  obtain m1 where m1: "parse_cookie_segment m seg = Inr m1"
    using parse_cookie_segment_total by blast
  with Cons.prems have "parse_cookie_segments m1 segs = Inr m'" by simp
  with Cons have "m' k = m1 k" by simp
  moreover from Cons.prems m1 have "m1 k = m k"
    using parse_cookie_segment_other by fastforce
  ultimately show ?case by simp
qed

lemma parseCookies_total: "\<exists>cookies. parseCookies req = Inr cookies"
  using parse_cookie_segments_total by (auto simp: parseCookies_def split: option.splits)

lemma getSessionToken_total: "\<exists>r. getSessionToken req = Inr r"
proof -
  obtain cookies where "parseCookies req = Inr cookies"
    using parseCookies_total by blast
  then show ?thesis by (simp add: getSessionToken_def split: option.splits)
qed

lemma getSessionToken_cookie_only:
  "req_cookie r1 = req_cookie r2 \<Longrightarrow> getSessionToken r1 = getSessionToken r2"
  by (simp add: getSessionToken_def parseCookies_def)

lemma getSessionToken_example:
  "getSessionToken \<lparr>req_method = [], req_pathname = [],
      req_cookie = Some ''foo=bar; session_token=abc123; baz=qux'', req_body = None\<rparr>
   = Inr (Some ''abc123'')"
  by code_simp

lemma getSessionToken_unmatched:
  assumes "\<forall>seg \<in> set (split_on CHR '';'' h). trim (hd (split_on CHR ''='' seg)) \<noteq> COOKIE_NAME"
    and "req_cookie req = Some h"
  shows "getSessionToken req = Inr None"
proof (cases "h = []")
  case True
  with assms(2) show ?thesis by (simp add: getSessionToken_def parseCookies_def)
next
  case False
  obtain cookies where c: "parse_cookie_segments Map.empty (split_on CHR '';'' h) = Inr cookies"
    using parse_cookie_segments_total by blast
  with assms(1) have "cookies COOKIE_NAME = None"
    using parse_cookie_segments_other [of "split_on CHR '';'' h" COOKIE_NAME Map.empty cookies] by simp
  with c False assms(2) show ?thesis by (simp add: getSessionToken_def parseCookies_def)
qed

text \<open>
  Claim C9. \<open>getSessionToken\<close> returns \<open>abc123\<close> for the header
  \<open>foo=bar; session_token=abc123; baz=qux\<close>; it returns null for every header none of
  whose segments is named \<open>session_token\<close>, and for a request without a \<open>Cookie\<close>
  header; and for every request it returns a value: no header makes it throw.
\<close>

theorem extract_cookie:
  "getSessionToken (req\<lparr>req_cookie := Some ''foo=bar; session_token=abc123; baz=qux''\<rparr>)
     = Inr (Some ''abc123'')
   \<and> ((\<forall>seg \<in> set (split_on CHR '';'' h). trim (hd (split_on CHR ''='' seg)) \<noteq> COOKIE_NAME)
        \<longrightarrow> getSessionToken (req\<lparr>req_cookie := Some h\<rparr>) = Inr None)
   \<and> getSessionToken (req\<lparr>req_cookie := None\<rparr>) = Inr None
   \<and> (\<exists>r. getSessionToken req = Inr r)"
proof (intro conjI impI)
  show "getSessionToken (req\<lparr>req_cookie := Some ''foo=bar; session_token=abc123; baz=qux''\<rparr>)
     = Inr (Some ''abc123'')"
    using getSessionToken_example
      getSessionToken_cookie_only [of "req\<lparr>req_cookie := Some ''foo=bar; session_token=abc123; baz=qux''\<rparr>"
        "\<lparr>req_method = [], req_pathname = [],
          req_cookie = Some ''foo=bar; session_token=abc123; baz=qux'', req_body = None\<rparr>"]
    by simp
next
  assume "\<forall>seg \<in> set (split_on CHR '';'' h). trim (hd (split_on CHR ''='' seg)) \<noteq> COOKIE_NAME"
  then show "getSessionToken (req\<lparr>req_cookie := Some h\<rparr>) = Inr None"
    by (rule getSessionToken_unmatched) simp
next
  show "getSessionToken (req\<lparr>req_cookie := None\<rparr>) = Inr None"
    by (simp add: getSessionToken_def parseCookies_def)
next
  show "\<exists>r. getSessionToken req = Inr r" by (rule getSessionToken_total)
qed

lemma unmatched_header:
  "\<forall>seg \<in> set (split_on CHR '';'' ''foo=bar; =x;; a==b''). trim (hd (split_on CHR ''='' seg)) \<noteq> COOKIE_NAME"
  by code_simp

theorem extract_cookie_witness:
  "getSessionToken \<lparr>req_method = ''GET'', req_pathname = ''/api/auth/me'',
        req_cookie = Some ''foo=bar; =x;; a==b'', req_body = None\<rparr> = Inr None"
  using unmatched_header
    extract_cookie [of "\<lparr>req_method = ''GET'', req_pathname = ''/api/auth/me'',
        req_cookie = None, req_body = None\<rparr>" "''foo=bar; =x;; a==b''"]
  by simp


lemma parse_cookie_segments_append:
  "parse_cookie_segments m (xs @ ys) =
     (case parse_cookie_segments m xs of Inl e \<Rightarrow> Inl e | Inr m' \<Rightarrow> parse_cookie_segments m' ys)"
  by (induction xs arbitrary: m) (auto split: sum.splits)

lemma parse_cookie_segment_sets:
  "trim (hd (split_on CHR ''='' seg)) = k \<Longrightarrow> k \<noteq> ''__proto__'' \<Longrightarrow>
   parse_cookie_segment m seg = Inr (m(k \<mapsto> trim (join ''='' (tl (split_on CHR ''='' seg)))))"
  by (cases "split_on CHR ''='' seg") (auto simp: parse_cookie_segment_def assign_def split_on_not_Nil)

lemma getSessionToken_last_empty:
  assumes h: "split_on CHR '';'' h = pre @ seg # post"
    and name: "trim (hd (split_on CHR ''='' seg)) = COOKIE_NAME"
    and val: "trim (join ''='' (tl (split_on CHR ''='' seg))) = []"
    and post: "\<forall>s \<in> set post. trim (hd (split_on CHR ''='' s)) \<noteq> COOKIE_NAME"
    and req: "req_cookie req = Some h"
  shows "getSessionToken req = Inr None"
proof (cases "h = []")
  case True
  with req show ?thesis by (simp add: getSessionToken_def parseCookies_def)
next
  case False
  obtain m1 where m1: "parse_cookie_segments Map.empty pre = Inr m1"
    using parse_cookie_segments_total by blast
  have m2: "parse_cookie_segment m1 seg = Inr (m1(COOKIE_NAME \<mapsto> []))"
    using parse_cookie_segment_sets [OF name, of m1] val by (simp add: COOKIE_NAME_def)
  obtain m3 where m3: "parse_cookie_segments (m1(COOKIE_NAME \<mapsto> [])) post = Inr m3"
    using parse_cookie_segments_total by blast
  have "m3 COOKIE_NAME = Some []"
    using parse_cookie_segments_other [OF post m3] by simp
  moreover have "parse_cookie_segments Map.empty (split_on CHR '';'' h) = Inr m3"
    by (simp add: h parse_cookie_segments_append m1 m2 m3)
  ultimately show ?thesis using False req
    by (simp add: getSessionToken_def parseCookies_def)
qed

lemma getSessionToken_never_empty: "getSessionToken req \<noteq> Inr (Some [])"
  by (auto simp: getSessionToken_def split: sum.splits option.splits)

lemma getSessionToken_empty_example:
  "getSessionToken \<lparr>req_method = [], req_pathname = [],
      req_cookie = Some ''session_token='', req_body = None\<rparr> = Inr None"
  by code_simp

text \<open>
  Claim C10. For the header \<open>session_token=\<close> the result is null; so it is for every
  header in which the last segment named \<open>session_token\<close> has an empty value after
  trimming; and \<open>getSessionToken\<close> never returns the empty string.
\<close>

theorem empty_cookie_value_is_absent:
  "getSessionToken (req\<lparr>req_cookie := Some ''session_token=''\<rparr>) = Inr None
   \<and> (split_on CHR '';'' h = pre @ seg # post
        \<and> trim (hd (split_on CHR ''='' seg)) = COOKIE_NAME
        \<and> trim (join ''='' (tl (split_on CHR ''='' seg))) = []
        \<and> (\<forall>s \<in> set post. trim (hd (split_on CHR ''='' s)) \<noteq> COOKIE_NAME)
      \<longrightarrow> getSessionToken (req\<lparr>req_cookie := Some h\<rparr>) = Inr None)
   \<and> getSessionToken req \<noteq> Inr (Some [])"
proof (intro conjI impI)
  show "getSessionToken (req\<lparr>req_cookie := Some ''session_token=''\<rparr>) = Inr None"
    using getSessionToken_empty_example
      getSessionToken_cookie_only [of "req\<lparr>req_cookie := Some ''session_token=''\<rparr>"
        "\<lparr>req_method = [], req_pathname = [],
          req_cookie = Some ''session_token='', req_body = None\<rparr>"]
    by simp
next
  assume a: "split_on CHR '';'' h = pre @ seg # post
        \<and> trim (hd (split_on CHR ''='' seg)) = COOKIE_NAME
        \<and> trim (join ''='' (tl (split_on CHR ''='' seg))) = []
        \<and> (\<forall>s \<in> set post. trim (hd (split_on CHR ''='' s)) \<noteq> COOKIE_NAME)"
  show "getSessionToken (req\<lparr>req_cookie := Some h\<rparr>) = Inr None"
    by (rule getSessionToken_last_empty [of h pre seg post]) (use a in simp_all)
next
  show "getSessionToken req \<noteq> Inr (Some [])" by (rule getSessionToken_never_empty)
qed

lemma empty_value_header:
  "split_on CHR '';'' ''a=b; session_token= ; c=d'' = [''a=b''] @ '' session_token= '' # ['' c=d'']
   \<and> trim (hd (split_on CHR ''='' '' session_token= '')) = COOKIE_NAME
   \<and> trim (join ''='' (tl (split_on CHR ''='' '' session_token= ''))) = []
   \<and> (\<forall>s \<in> set ['' c=d'']. trim (hd (split_on CHR ''='' s)) \<noteq> COOKIE_NAME)"
  by code_simp

theorem empty_cookie_value_is_absent_witness:
  "split_on CHR '';'' ''a=b; session_token= ; c=d'' = [''a=b''] @ '' session_token= '' # ['' c=d'']
   \<and> trim (hd (split_on CHR ''='' '' session_token= '')) = COOKIE_NAME
   \<and> trim (join ''='' (tl (split_on CHR ''='' '' session_token= ''))) = []
   \<and> getSessionToken \<lparr>req_method = ''GET'', req_pathname = ''/api/auth/me'',
        req_cookie = Some ''a=b; session_token= ; c=d'', req_body = None\<rparr> = Inr None"
  using empty_value_header
    empty_cookie_value_is_absent [of "\<lparr>req_method = ''GET'', req_pathname = ''/api/auth/me'',
        req_cookie = None, req_body = None\<rparr>" "''a=b; session_token= ; c=d''"
        "[''a=b'']" "'' session_token= ''" "['' c=d'']"]
  by simp

section \<open>Attaching the session cookie\<close>

lemma default_maxAge: "digits_of (SESSION_DURATION div 1000) = ''86400''"
  by (simp add: digits_of.simps SESSION_DURATION_def digit_char_def)

lemma setSessionCookie_httpOnly_off:
  "setSessionCookie None ''abc123'' (no_options\<lparr>opt_httpOnly := Some False\<rparr>)
     = ''session_token=abc123; Max-Age=86400; Path=/; SameSite=Lax''"
  by (simp add: setSessionCookie_def no_options_def default_maxAge COOKIE_NAME_def)

lemma attributes_httpOnly_off:
  "cookie_attributes ''session_token=abc123; Max-Age=86400; Path=/; SameSite=Lax''
   = [''Max-Age=86400'', ''Path=/'', ''SameSite=Lax'']"
  by code_simp

text \<open>
  With \<open>{httpOnly: false}\<close> the header has no \<open>HttpOnly\<close> attribute.
\<close>

theorem attach_httpOnly_false_counterexample:
  "setSessionCookie None ''abc123'' (no_options\<lparr>opt_httpOnly := Some False\<rparr>)
     = ''session_token=abc123; Max-Age=86400; Path=/; SameSite=Lax''
   \<and> ''HttpOnly'' \<notin> set (cookie_attributes
        (setSessionCookie None ''abc123'' (no_options\<lparr>opt_httpOnly := Some False\<rparr>)))"
  by (simp only: setSessionCookie_httpOnly_off attributes_httpOnly_off) simp

lemma trim_HttpOnly: "trim '' HttpOnly'' = ''HttpOnly''"
  by code_simp

lemma split_on_HttpOnly: "split_on CHR '';'' '' HttpOnly'' = ['' HttpOnly'']"
  by code_simp

lemma split_on_HttpOnly_Secure:
  "split_on CHR '';'' '' HttpOnly; Secure'' = ['' HttpOnly'', '' Secure'']"
  by code_simp

lemma cookie_attributes_HttpOnly:
  assumes "suffix = '''' \<or> suffix = ''; Secure''"
  shows "''HttpOnly'' \<in> set (cookie_attributes (pre @ ''; HttpOnly'' @ suffix))"
proof -
  have tail: "'' HttpOnly'' \<in> set (split_on CHR '';'' ('' HttpOnly'' @ suffix))"
    using assms split_on_HttpOnly split_on_HttpOnly_Secure by auto
  have "pre @ ''; HttpOnly'' @ suffix = pre @ CHR '';'' # ('' HttpOnly'' @ suffix)"
    by simp
  then have "split_on CHR '';'' (pre @ ''; HttpOnly'' @ suffix)
        = split_on CHR '';'' pre @ split_on CHR '';'' ('' HttpOnly'' @ suffix)"
    by (simp only: split_on_append)
  moreover obtain s ss where "split_on CHR '';'' pre = s # ss"
    using split_on_not_Nil by (cases "split_on CHR '';'' pre") auto
  ultimately have "tl (split_on CHR '';'' (pre @ ''; HttpOnly'' @ suffix))
        = ss @ split_on CHR '';'' ('' HttpOnly'' @ suffix)"
    by simp
  with tail have "'' HttpOnly'' \<in> set (tl (split_on CHR '';'' (pre @ ''; HttpOnly'' @ suffix)))"
    by simp
  then have "trim '' HttpOnly'' \<in> set (cookie_attributes (pre @ ''; HttpOnly'' @ suffix))"
    unfolding cookie_attributes_def by (simp only: set_map image_eqI)
  then show ?thesis by (simp only: trim_HttpOnly)
qed

lemma setSessionCookie_httpOnly_default:
  assumes "opt_httpOnly options \<noteq> Some False"
  shows "''HttpOnly'' \<in> set (cookie_attributes (setSessionCookie env token options))"
proof -
  from assms have h: "(case opt_httpOnly options of None \<Rightarrow> True | Some b \<Rightarrow> b) = True"
    by (cases "opt_httpOnly options") auto
  obtain pre suffix where
    "setSessionCookie env token options = pre @ ''; HttpOnly'' @ suffix"
    "suffix = '''' \<or> suffix = ''; Secure''"
  proof
    show "setSessionCookie env token options =
      (COOKIE_NAME @ ''='' @ token @ ''; Max-Age=''
        @ digits_of (case opt_maxAge options of None \<Rightarrow> SESSION_DURATION div 1000 | Some m \<Rightarrow> m)
        @ ''; Path='' @ (case opt_path options of None \<Rightarrow> ''/'' | Some p \<Rightarrow> p)
        @ ''; SameSite='' @ (case opt_sameSite options of None \<Rightarrow> ''Lax'' | Some s \<Rightarrow> s))
      @ ''; HttpOnly''
      @ (if (case opt_secure options of None \<Rightarrow> env = Some ''production'' | Some b \<Rightarrow> b)
         then ''; Secure'' else '''')"
      unfolding setSessionCookie_def Let_def h by simp
    show "(if (case opt_secure options of None \<Rightarrow> env = Some ''production'' | Some b \<Rightarrow> b)
         then ''; Secure'' else '''') = '''' \<or>
        (if (case opt_secure options of None \<Rightarrow> env = Some ''production'' | Some b \<Rightarrow> b)
         then ''; Secure'' else '''') = ''; Secure''"
      by simp
  qed
  then show ?thesis using cookie_attributes_HttpOnly by simp
qed


lemma split_on_Cons_piece:
  "c \<notin> set a \<Longrightarrow> split_on c (a @ c # b) = a # split_on c b"
  by (simp add: split_on_append split_on_no_sep del: split_on.simps)

lemma digit_char_not_semicolon: "d < 10 \<Longrightarrow> digit_char d \<noteq> CHR '';''"
proof -
  assume "d < 10"
  then have "d \<in> {0, 1, 2, 3, 4, 5, 6, 7, 8, 9}" by auto
  then show ?thesis by (auto simp: digit_char_def)
qed

lemma digits_of_no_semicolon: "CHR '';'' \<notin> set (digits_of n)"
proof (induction n rule: digits_of.induct)
  case (1 n)
  show ?case
  proof (cases "n < 10")
    case True
    then show ?thesis
      using digit_char_not_semicolon [of n] by (subst digits_of.simps) simp
  next
    case False
    moreover have "digit_char (n mod 10) \<noteq> CHR '';''"
      by (rule digit_char_not_semicolon) simp
    ultimately show ?thesis
      using 1 by (subst digits_of.simps) simp
  qed
qed

lemma is_ws_space: "is_ws CHR '' ''"
  by (simp add: is_ws_def)

lemma trim_space_Cons:
  assumes "\<not> is_ws c"
  shows "\<exists>t. trim (CHR '' '' # c # s) = c # t"
proof -
  have a: "dropWhile is_ws (CHR '' '' # c # s) = c # s"
    using assms is_ws_space by simp
  have "\<exists>u. dropWhile is_ws (rev s @ [c]) = u @ [c]"
  proof (cases "\<forall>x\<in>set s. is_ws x")
    case True
    with assms have "dropWhile is_ws (rev s @ [c]) = [] @ [c]"
      by (simp add: dropWhile_append)
    then show ?thesis by blast
  next
    case False
    then have "dropWhile is_ws (rev s @ [c]) = dropWhile is_ws (rev s) @ [c]"
      by (simp add: dropWhile_append)
    then show ?thesis by blast
  qed
  then obtain u where u: "dropWhile is_ws (rev s @ [c]) = u @ [c]" by blast
  have "trim (CHR '' '' # c # s) = c # rev u"
    unfolding trim_def a using u by simp
  then show ?thesis by blast
qed

lemma trim_not_HttpOnly:
  assumes "\<not> is_ws c" and "c \<noteq> CHR ''H''"
  shows "trim (CHR '' '' # c # s) \<noteq> ''HttpOnly''"
  using trim_space_Cons [OF assms(1), of s] assms(2) by auto

lemma not_ws_letters: "\<not> is_ws CHR ''M''" "\<not> is_ws CHR ''P''" "\<not> is_ws CHR ''S''"
  by (simp_all add: is_ws_def)

lemma setSessionCookie_httpOnly_false:
  assumes off: "opt_httpOnly options = Some False"
    and tok: "CHR '';'' \<notin> set token"
    and path: "\<forall>p. opt_path options = Some p \<longrightarrow> CHR '';'' \<notin> set p"
    and site: "\<forall>s. opt_sameSite options = Some s \<longrightarrow> CHR '';'' \<notin> set s"
  shows "''HttpOnly'' \<notin> set (cookie_attributes (setSessionCookie env token options))"
proof -
  define D where "D = digits_of (case opt_maxAge options of None \<Rightarrow> SESSION_DURATION div 1000 | Some m \<Rightarrow> m)"
  define P where "P = (case opt_path options of None \<Rightarrow> ''/'' | Some p \<Rightarrow> p)"
  define S where "S = (case opt_sameSite options of None \<Rightarrow> ''Lax'' | Some s \<Rightarrow> s)"
  define sec where "sec = (case opt_secure options of None \<Rightarrow> env = Some ''production'' | Some b \<Rightarrow> b)"
  define A1 where "A1 = COOKIE_NAME @ ''='' @ token"
  define A2 where "A2 = '' Max-Age='' @ D"
  define A3 where "A3 = '' Path='' @ P"
  define A4 where "A4 = '' SameSite='' @ S"
  have D: "CHR '';'' \<notin> set D" unfolding D_def by (rule digits_of_no_semicolon)
  have P: "CHR '';'' \<notin> set P" using path by (auto simp: P_def split: option.splits)
  have S: "CHR '';'' \<notin> set S" using site by (auto simp: S_def split: option.splits)
  have n1: "CHR '';'' \<notin> set A1" using tok by (simp add: A1_def COOKIE_NAME_def)
  have n2: "CHR '';'' \<notin> set A2" using D by (simp add: A2_def)
  have n3: "CHR '';'' \<notin> set A3" using P by (simp add: A3_def)
  have n4: "CHR '';'' \<notin> set A4" using S by (simp add: A4_def)
  have hdr: "setSessionCookie env token options
      = A1 @ CHR '';'' # (A2 @ CHR '';'' # (A3 @ CHR '';'' # (A4 @ (if sec then ''; Secure'' else ''''))))"
    by (simp add: setSessionCookie_def Let_def off A1_def A2_def A3_def A4_def D_def P_def S_def sec_def)
  have last: "split_on CHR '';'' (A4 @ (if sec then ''; Secure'' else ''''))
      = A4 # (if sec then ['' Secure''] else [])"
  proof (cases sec)
    case True
    have "split_on CHR '';'' (A4 @ CHR '';'' # '' Secure'') = A4 # split_on CHR '';'' '' Secure''"
      using n4 by (rule split_on_Cons_piece)
    with True show ?thesis by simp
  next
    case False
    then show ?thesis using n4 by (simp add: split_on_no_sep del: split_on.simps)
  qed
  have "split_on CHR '';'' (setSessionCookie env token options)
      = A1 # A2 # A3 # A4 # (if sec then ['' Secure''] else [])"
    by (simp only: hdr split_on_Cons_piece [OF n1] split_on_Cons_piece [OF n2]
        split_on_Cons_piece [OF n3] last)
  then have attrs: "cookie_attributes (setSessionCookie env token options)
      = trim A2 # trim A3 # trim A4 # (if sec then [trim '' Secure''] else [])"
    by (simp add: cookie_attributes_def)
  have "trim A2 \<noteq> ''HttpOnly''" unfolding A2_def
    using trim_not_HttpOnly [OF not_ws_letters(1), of "''ax-Age='' @ D"] by simp
  moreover have "trim A3 \<noteq> ''HttpOnly''" unfolding A3_def
    using trim_not_HttpOnly [OF not_ws_letters(2), of "''ath='' @ P"] by simp
  moreover have "trim A4 \<noteq> ''HttpOnly''" unfolding A4_def
    using trim_not_HttpOnly [OF not_ws_letters(3), of "''ameSite='' @ S"] by simp
  moreover have "trim '' Secure'' \<noteq> ''HttpOnly''"
    using trim_not_HttpOnly [OF not_ws_letters(3), of "''ecure''"] by simp
  ultimately show ?thesis
    by (auto simp: attrs)
qed

text \<open>
  Claim C8, as the code has it. \<open>setSessionCookie\<close> sets \<open>HttpOnly\<close> for every token
  and every options object whose \<open>httpOnly\<close> is undefined or truthy. When \<open>httpOnly\<close>
  is given and falsy the attribute is left out (no other attribute is \<open>HttpOnly\<close> as
  long as the token, the path and the SameSite value contain no semicolon).
\<close>

theorem attach_httpOnly_unless_disabled:
  "(opt_httpOnly options \<noteq> Some False \<longrightarrow>
      ''HttpOnly'' \<in> set (cookie_attributes (setSessionCookie env token options)))
   \<and> (opt_httpOnly options = Some False \<and> CHR '';'' \<notin> set token
        \<and> (\<forall>p. opt_path options = Some p \<longrightarrow> CHR '';'' \<notin> set p)
        \<and> (\<forall>s. opt_sameSite options = Some s \<longrightarrow> CHR '';'' \<notin> set s) \<longrightarrow>
      ''HttpOnly'' \<notin> set (cookie_attributes (setSessionCookie env token options)))"
  using setSessionCookie_httpOnly_default [of options env token]
    setSessionCookie_httpOnly_false [of options token env]
  by blast

theorem attach_httpOnly_unless_disabled_witness:
  "opt_httpOnly no_options \<noteq> Some False
   \<and> ''HttpOnly'' \<in> set (cookie_attributes (setSessionCookie None ''abc123'' no_options))
   \<and> opt_httpOnly (no_options\<lparr>opt_httpOnly := Some False\<rparr>) = Some False
   \<and> CHR '';'' \<notin> set ''abc123''
   \<and> ''HttpOnly'' \<notin> set (cookie_attributes
         (setSessionCookie None ''abc123'' (no_options\<lparr>opt_httpOnly := Some False\<rparr>)))"
  using attach_httpOnly_unless_disabled [of no_options None "''abc123''"]
    attach_httpOnly_unless_disabled [of "no_options\<lparr>opt_httpOnly := Some False\<rparr>" None "''abc123''"]
  by (simp add: no_options_def)

section \<open>Hashing and verifying passwords\<close>

lemma nibble_cases:
  assumes "n < (16::nat)"
  shows "n \<in> {0, 1, 2, 3, 4, 5, 6, 7, 8, 9, 10, 11, 12, 13, 14, 15}"
  using assms by simp arith

lemma unhex_hex_digit: "n < 16 \<Longrightarrow> unhex (hex_digit n) = Some n"
  using nibble_cases [of n] by (auto simp: hex_digit_def unhex_def)

lemma hex_digit_not_colon: "n < 16 \<Longrightarrow> CHR '':'' \<noteq> hex_digit n"
  using nibble_cases [of n] by (auto simp: hex_digit_def)

lemma byte_nibbles: "unat (b::byte) div 16 < 16" "unat b mod 16 < 16"
proof -
  have "unat b < 256" using unsigned_less [of b] by simp
  then show "unat b div 16 < 16" by simp
  show "unat b mod 16 < 16" by simp
qed

lemma toHex_Cons: "toHex (b # bs) = hex_digit (unat b div 16) # hex_digit (unat b mod 16) # toHex bs"
  by (simp add: toHex_def)

lemma toHex_Nil: "toHex [] = []"
  by (simp add: toHex_def)

lemma fromHex_toHex: "fromHex (toHex bs) = bs"
proof (induction bs)
  case Nil
  show ?case by (simp add: toHex_Nil)
next
  case (Cons b bs)
  have "(of_nat (unat b div 16 * 16 + unat b mod 16) :: byte) = b"
    by simp
  with Cons show ?case
    by (simp add: toHex_Cons unhex_hex_digit byte_nibbles)
qed

lemma toHex_no_colon: "CHR '':'' \<notin> set (toHex bs)"
  by (induction bs) (auto simp: toHex_Nil toHex_Cons hex_digit_not_colon byte_nibbles)

lemma split_hashPassword:
  "split_on CHR '':'' (hashPassword k rnd p)
     = [toHex rnd, toHex (k p (toHex rnd) 100000 64)]"
proof -
  have "hashPassword k rnd p = toHex rnd @ CHR '':'' # toHex (k p (toHex rnd) 100000 64)"
    by (simp add: hashPassword_def Let_def)
  then show ?thesis
    by (simp only: split_on_append split_on_no_sep [OF toHex_no_colon]) simp
qed

lemma verify_hashPassword:
  "verifyPassword k p (hashPassword k rnd p2) =
     timingSafeEqual (k p2 (toHex rnd) 100000 64) (k p (toHex rnd) 100000 64)"
  by (simp add: verifyPassword_def split_hashPassword fromHex_toHex del: split_on.simps)

lemma verify_no_separator:
  "CHR '':'' \<notin> set storedHash \<Longrightarrow> verifyPassword k p storedHash = Inl TypeError"
  by (simp add: verifyPassword_def split_on_no_sep del: split_on.simps)

lemma verify_with_separator:
  assumes "CHR '':'' \<notin> set salt" "CHR '':'' \<notin> set digest"
  shows "verifyPassword k p (salt @ CHR '':'' # digest)
     = timingSafeEqual (fromHex digest) (k p salt 100000 64)"
  using assms
  by (simp add: verifyPassword_def split_on_append split_on_no_sep fromHex_toHex del: split_on.simps)

lemma length_fromHex_le: "length (fromHex s) \<le> length s div 2"
  by (induction s rule: fromHex.induct) (auto split: option.splits)

lemma length_fromHex_hex:
  "\<forall>c \<in> set s. unhex c \<noteq> None \<Longrightarrow> length (fromHex s) = length s div 2"
  by (induction s rule: fromHex.induct) (auto split: option.splits)

lemma length_fromHex_bad:
  "i < length s \<Longrightarrow> unhex (s ! i) = None \<Longrightarrow> length (fromHex s) \<le> i div 2"
proof (induction s arbitrary: i rule: fromHex.induct)
  case (1 a b rest)
  show ?case
  proof (cases "i < 2")
    case True
    then have "i = 0 \<or> i = 1" by auto
    with 1(2,3) show ?thesis by (auto split: option.splits)
  next
    case False
    then obtain j where j: "i = Suc (Suc j)" by (metis less_2_cases_iff old.nat.exhaust)
    show ?thesis
    proof (cases "unhex a")
      case None then show ?thesis by simp
    next
      case (Some hi)
      show ?thesis
      proof (cases "unhex b")
        case None with Some show ?thesis by simp
      next
        case (Some lo)
        from 1(2,3) j have "j < length rest" "unhex (rest ! j) = None" by auto
        from 1(1) [OF \<open>unhex a = Some hi\<close> Some this] have "length (fromHex rest) \<le> j div 2" .
        with \<open>unhex a = Some hi\<close> Some j show ?thesis by simp
      qed
    qed
  qed
qed simp_all

lemma hmac_key_zero_padded:
  assumes "length key < B"
  shows "hmac_key H B (key @ [0]) = hmac_key H B key"
proof -
  from assms obtain n where n: "B - length key = Suc n"
    by (metis Suc_diff_Suc)
  then have "B - length (key @ [0]) = n" by simp
  moreover from assms have "\<not> B < length (key @ [0])" "\<not> B < length key" by simp_all
  ultimately show ?thesis
    using n by (simp add: hmac_key_def)
qed

lemma pbkdf2_sha512_zero_padded:
  assumes "length password < 128"
  shows "pbkdf2_sha512 H (password @ [CHR 0x00]) = pbkdf2_sha512 H password"
proof -
  have "string_bytes (password @ [CHR 0x00]) = string_bytes password @ [0]"
    by (simp add: string_bytes_def)
  moreover have "length (string_bytes password) < 128"
    using assms by (simp add: string_bytes_def)
  ultimately have "hmac H 128 (string_bytes (password @ [CHR 0x00])) = hmac H 128 (string_bytes password)"
    by (intro ext) (simp add: hmac_def hmac_key_zero_padded)
  then show ?thesis
    by (intro ext) (simp add: pbkdf2_sha512_def)
qed

lemma timingSafeEqual_same: "timingSafeEqual a a = Inr True"
  by (simp add: timingSafeEqual_def)

lemma verify_collision:
  "verifyPassword (pbkdf2_sha512 H) [CHR ''a'', CHR 0x00]
      (hashPassword (pbkdf2_sha512 H) rnd ''a'') = Inr True"
proof -
  have "pbkdf2_sha512 H (''a'' @ [CHR 0x00]) = pbkdf2_sha512 H ''a''"
    by (rule pbkdf2_sha512_zero_padded) simp
  then have "pbkdf2_sha512 H [CHR ''a'', CHR 0x00] = pbkdf2_sha512 H ''a''" by simp
  then show ?thesis
    by (simp only: verify_hashPassword timingSafeEqual_same)
qed

text \<open>
  HMAC pads a short key with zero bytes, so the passwords \<open>a\<close> and \<open>a\<close> followed by
  U+0000 derive the same key under every salt, whatever the compression function is
  (\<open>verify_collision\<close>): the second verifies against the stored hash of the first.
\<close>

theorem verify_distinct_passwords_counterexample:
  "[CHR ''a'', CHR 0x00] \<noteq> ''a''
   \<and> verifyPassword (pbkdf2_sha512 example_hash) [CHR ''a'', CHR 0x00]
        (hashPassword (pbkdf2_sha512 example_hash) (replicate 16 1) ''a'') = Inr True"
  using verify_collision [of example_hash "replicate 16 1"] by simp

text \<open>
  No derivation with outputs of a fixed length separates all passwords: under every
  salt two distinct passwords share a digest.
\<close>

lemma kdf_collision_exists:
  fixes f :: "string \<Rightarrow> byte list"
  assumes "\<forall>p. length (f p) = n"
  shows "\<exists>p p2. p \<noteq> p2 \<and> f p = f p2"
proof (rule ccontr)
  assume "\<not> (\<exists>p p2. p \<noteq> p2 \<and> f p = f p2)"
  then have inj: "inj f" unfolding inj_on_def by blast
  have "range f \<subseteq> {xs. set xs \<subseteq> UNIV \<and> length xs = n}"
    using assms by auto
  moreover have "finite {xs :: byte list. set xs \<subseteq> UNIV \<and> length xs = n}"
    by (rule finite_lists_length_eq) simp
  ultimately have "finite (range f)" by (rule finite_subset)
  then have "finite (UNIV :: string set)" using inj by (rule finite_imageD)
  then show False by (simp add: infinite_UNIV_listI)
qed

lemma verify_collision_any_kdf:
  assumes "\<forall>p. length (k p (toHex rnd) 100000 64) = n"
  shows "\<exists>p p2. p \<noteq> p2 \<and> verifyPassword k p (hashPassword k rnd p2) = Inr True"
proof -
  obtain p p2 where "p \<noteq> p2" "k p (toHex rnd) 100000 64 = k p2 (toHex rnd) 100000 64"
    using kdf_collision_exists [of "\<lambda>p. k p (toHex rnd) 100000 64" n] assms by blast
  then have "p \<noteq> p2 \<and> verifyPassword k p (hashPassword k rnd p2) = Inr True"
    by (simp add: verify_hashPassword timingSafeEqual_def)
  then show ?thesis by blast
qed

text \<open>
  Claim C2, as the code has it. For every key derivation, salt and password,
  \<open>verifyPassword p (hashPassword p)\<close> is true. For two passwords whose digests under
  the salt of the stored hash have the same length (64 bytes from PBKDF2),
  \<open>verifyPassword p (hashPassword p2)\<close> is true exactly when the two digests are
  equal; it is false for \<open>p \<noteq> p2\<close> only as far as the derivation separates them.
\<close>

theorem verify_hash_roundtrip:
  "verifyPassword k p (hashPassword k rnd p) = Inr True
   \<and> (length (k p (toHex rnd) 100000 64) = length (k p2 (toHex rnd) 100000 64) \<longrightarrow>
        verifyPassword k p (hashPassword k rnd p2)
          = Inr (k p (toHex rnd) 100000 64 = k p2 (toHex rnd) 100000 64))"
  by (auto simp: verify_hashPassword timingSafeEqual_def)

theorem verify_hash_roundtrip_witness:
  "verifyPassword (\<lambda>pw salt c n. replicate n (of_nat (length pw))) ''a''
     (hashPassword (\<lambda>pw salt c n. replicate n (of_nat (length pw))) [] ''bb'') = Inr False"
  using verify_hash_roundtrip [of "\<lambda>pw salt c n. replicate n (of_nat (length pw))" "''a''" "[]" "''bb''"]
  by simp

text \<open>
  A stored hash without a separator makes \<open>verifyPassword\<close> throw, whatever the key
  derivation yields.
\<close>

theorem verify_malformed_counterexample:
  "verifyPassword example_kdf ''secret'' ''deadbeef'' = Inl TypeError"
  by (rule verify_no_separator) simp

text \<open>
  Every stored hash either has no separator or is a salt, a separator, a digest field
  and a rest that is empty or begins with the next separator.
\<close>

lemma stored_hash_shape:
  assumes "CHR '':'' \<in> set storedHash"
  shows "\<exists>salt digest rest. storedHash = salt @ CHR '':'' # digest @ rest
           \<and> CHR '':'' \<notin> set salt \<and> CHR '':'' \<notin> set digest
           \<and> (rest = [] \<or> (\<exists>t. rest = CHR '':'' # t))"
proof -
  from assms obtain salt zs where s: "storedHash = salt @ CHR '':'' # zs" "CHR '':'' \<notin> set salt"
    using split_list_first [of "CHR '':''" storedHash] by blast
  show ?thesis
  proof (cases "CHR '':'' \<in> set zs")
    case False
    with s have "storedHash = salt @ CHR '':'' # zs @ [] \<and> CHR '':'' \<notin> set salt
        \<and> CHR '':'' \<notin> set zs \<and> ([] = [] \<or> (\<exists>t. ([]::string) = CHR '':'' # t))" by simp
    then show ?thesis by blast
  next
    case True
    then obtain digest t where z: "zs = digest @ CHR '':'' # t" "CHR '':'' \<notin> set digest"
      using split_list_first [of "CHR '':''" zs] by blast
    with s have "storedHash = salt @ CHR '':'' # digest @ (CHR '':'' # t) \<and> CHR '':'' \<notin> set salt
        \<and> CHR '':'' \<notin> set digest
        \<and> (CHR '':'' # t = [] \<or> (\<exists>t'. CHR '':'' # t = CHR '':'' # t'))" by simp
    then show ?thesis by blast
  qed
qed

lemma split_on_digest_field:
  assumes "CHR '':'' \<notin> set digest" "rest = [] \<or> (\<exists>t. rest = CHR '':'' # t)"
  shows "\<exists>others. split_on CHR '':'' (digest @ rest) = digest # others"
proof (cases "rest = []")
  case True
  with assms(1) show ?thesis by (simp add: split_on_no_sep del: split_on.simps)
next
  case False
  with assms(2) obtain t where "rest = CHR '':'' # t" by blast
  with assms(1) show ?thesis
    by (simp add: split_on_Cons_piece del: split_on.simps)
qed

lemma verify_with_fields:
  assumes "CHR '':'' \<notin> set salt" "CHR '':'' \<notin> set digest"
    "rest = [] \<or> (\<exists>t. rest = CHR '':'' # t)"
  shows "verifyPassword k p (salt @ CHR '':'' # digest @ rest)
     = timingSafeEqual (fromHex digest) (k p salt 100000 64)"
proof -
  obtain others where "split_on CHR '':'' (digest @ rest) = digest # others"
    using split_on_digest_field [OF assms(2,3)] by blast
  with assms(1) have "split_on CHR '':'' (salt @ CHR '':'' # digest @ rest) = salt # digest # others"
    by (simp add: split_on_Cons_piece del: split_on.simps)
  then show ?thesis
    by (simp add: verifyPassword_def fromHex_toHex del: split_on.simps)
qed

text \<open>
  Claim C1, as the code has it. \<open>verifyPassword\<close> does not answer false to a stored hash
  because it is malformed. Without a separator it throws a TypeError. With one, where
  \<open>salt\<close> is the text before the first separator and \<open>digest\<close> the text from there to
  the next separator or the end, and the derivation yields 64 bytes: it throws a
  RangeError when \<open>digest\<close> does not decode to exactly 64 bytes, and otherwise it returns
  whether the decoded bytes are the digest derived from the password and \<open>salt\<close>. A
  \<open>digest\<close> with a character that is not a hexadecimal digit among its first 128, and
  a hexadecimal \<open>digest\<close> whose length is not 128 or 129, does not decode to 64 bytes.
\<close>

theorem verify_malformed_throws:
  "(CHR '':'' \<notin> set storedHash \<longrightarrow> verifyPassword k p storedHash = Inl TypeError)
   \<and> (CHR '':'' \<notin> set salt \<and> CHR '':'' \<notin> set digest
        \<and> (rest = [] \<or> (\<exists>t. rest = CHR '':'' # t))
        \<and> length (k p salt 100000 64) = 64 \<longrightarrow>
        verifyPassword k p (salt @ CHR '':'' # digest @ rest)
          = (if length (fromHex digest) = 64
             then Inr (fromHex digest = k p salt 100000 64)
             else Inl RangeError))
   \<and> (i < 128 \<and> i < length digest \<and> unhex (digest ! i) = None \<longrightarrow>
        length (fromHex digest) \<noteq> 64)
   \<and> ((\<forall>c \<in> set digest. unhex c \<noteq> None) \<and> length digest div 2 \<noteq> 64 \<longrightarrow>
        length (fromHex digest) \<noteq> 64)"
proof (intro conjI impI)
  assume "CHR '':'' \<notin> set storedHash"
  then show "verifyPassword k p storedHash = Inl TypeError" by (rule verify_no_separator)
next
  assume a: "CHR '':'' \<notin> set salt \<and> CHR '':'' \<notin> set digest
        \<and> (rest = [] \<or> (\<exists>t. rest = CHR '':'' # t))
        \<and> length (k p salt 100000 64) = 64"
  then have "verifyPassword k p (salt @ CHR '':'' # digest @ rest)
     = timingSafeEqual (fromHex digest) (k p salt 100000 64)"
    using verify_with_fields [of salt digest rest k p] by blast
  with a show "verifyPassword k p (salt @ CHR '':'' # digest @ rest)
          = (if length (fromHex digest) = 64
             then Inr (fromHex digest = k p salt 100000 64)
             else Inl RangeError)"
    by (simp add: timingSafeEqual_def)
next
  assume a: "i < 128 \<and> i < length digest \<and> unhex (digest ! i) = None"
  then have "length (fromHex digest) \<le> i div 2" by (simp add: length_fromHex_bad)
  with a show "length (fromHex digest) \<noteq> 64" by auto
next
  assume "(\<forall>c \<in> set digest. unhex c \<noteq> None) \<and> length digest div 2 \<noteq> 64"
  then show "length (fromHex digest) \<noteq> 64" by (simp add: length_fromHex_hex)
qed

lemma length_example_kdf: "length (example_kdf p s c n) = n"
  by (simp add: example_kdf_def)

theorem verify_malformed_throws_witness:
  "verifyPassword example_kdf ''secret'' ''deadbeef'' = Inl TypeError
   \<and> verifyPassword example_kdf ''secret'' (''ab'' @ CHR '':'' # ''zz'' @ []) = Inl RangeError
   \<and> verifyPassword example_kdf ''secret''
        (toHex [] @ CHR '':'' # toHex (example_kdf ''secret'' (toHex []) 100000 64) @ '':zz'')
       = Inr True
   \<and> length (fromHex ''zz'') \<noteq> 64
   \<and> length (fromHex ''abcd'') \<noteq> 64"
proof -
  have a: "verifyPassword example_kdf ''secret'' ''deadbeef'' = Inl TypeError"
    using verify_malformed_throws [of "''deadbeef''" example_kdf "''secret''"] by simp
  have z: "length (fromHex ''zz'') \<noteq> 64"
    using verify_malformed_throws [of _ _ _ _ "''zz''" _ 0] by (simp add: unhex_def)
  have d: "length (fromHex ''abcd'') \<noteq> 64"
    using verify_malformed_throws [of _ _ _ _ "''abcd''" _ 0] by (simp add: unhex_def)
  have b: "verifyPassword example_kdf ''secret'' (''ab'' @ CHR '':'' # ''zz'' @ []) = Inl RangeError"
    using verify_malformed_throws [of _ example_kdf "''secret''" "''ab''" "''zz''" "[]"] z
    by (simp add: length_example_kdf)
  have c: "verifyPassword example_kdf ''secret''
        (toHex [] @ CHR '':'' # toHex (example_kdf ''secret'' (toHex []) 100000 64) @ '':zz'')
       = Inr True"
    using verify_malformed_throws [of _ example_kdf "''secret''" "toHex []"
        "toHex (example_kdf ''secret'' (toHex []) 100000 64)" "'':zz''"]
    by (simp add: length_example_kdf toHex_no_colon fromHex_toHex)
  from a b c z d show ?thesis by blast
qed

section \<open>The example clock\<close>


lemma iso_1000: "iso_january_1970 1000 = ''1970-01-01T00:00:01.000Z''"
  by (simp add: iso_january_1970_def pad2_def pad3_def digits_of.simps digit_char_def)

lemma iso_day: "iso_january_1970 (0 + SESSION_DURATION) = ''1970-01-02T00:00:00.000Z''"
  by (simp add: iso_january_1970_def pad2_def pad3_def digits_of.simps digit_char_def SESSION_DURATION_def)

lemma sql_0: "sql_january_1970 0 = ''1970-01-01 00:00:00''"
  by (simp add: sql_january_1970_def pad2_def digits_of.simps digit_char_def)


lemma example_now_1000:
  "toISOString example_platform 1000 = ''1970-01-01T00:00:01.000Z''"
  "sqlite_numeric example_platform (toISOString example_platform 1000) = None"
  by (simp_all add: example_platform_def iso_1000 example_numeric_def)

section \<open>Comparing with the current instant\<close>


lemma earlier_than_now:
  assumes "sqlite_numeric pf txt = None"
  shows "sql_less v (with_numeric_affinity pf txt)
     = (case v of SqlNumber n \<Rightarrow> True | SqlText t \<Rightarrow> t < txt | SqlBlob b \<Rightarrow> False)"
  using assms by (cases v) (simp_all add: with_numeric_affinity_def)

section \<open>Sweeping expired sessions\<close>

text \<open>
  A row whose \<open>expires_at\<close> is exactly the current instant survives the sweep, on every
  platform and at every instant.
\<close>

lemma sweep_keeps_row_expiring_now:
  "s_expires_at row = with_numeric_affinity pf (toISOString pf now) \<Longrightarrow>
   row \<in> set (sessions db) \<Longrightarrow>
   row \<in> set (sessions (cleanupExpiredSessions pf db now))"
proof -
  have "\<not> sql_less v v" for v by (cases v) simp_all
  then show "s_expires_at row = with_numeric_affinity pf (toISOString pf now) \<Longrightarrow>
   row \<in> set (sessions db) \<Longrightarrow>
   row \<in> set (sessions (cleanupExpiredSessions pf db now))"
    by (simp add: cleanupExpiredSessions_def)
qed

theorem sweep_boundary_counterexample:
  "toISOString example_platform 1000 = ''1970-01-01T00:00:01.000Z''
   \<and> sessions (cleanupExpiredSessions example_platform
        \<lparr>users = [],
         sessions = [example_session 1 ''bb'' (SqlText ''1970-01-01T00:00:01.000Z'')],
         users_seq = 0, sessions_seq = 1\<rparr> 1000)
     = [example_session 1 ''bb'' (SqlText ''1970-01-01T00:00:01.000Z'')]"
proof -
  have n: "sqlite_numeric example_platform ''1970-01-01T00:00:01.000Z'' = None"
    using example_now_1000 by simp
  show ?thesis
    by (simp add: cleanupExpiredSessions_def example_session_def example_now_1000(1)
        earlier_than_now [OF n])
qed

text \<open>
  Claim C7, as the code has it. At an instant whose ISO text is not a number to
  SQLite, \<open>cleanupExpiredSessions\<close> deletes every session row whose \<open>expires_at\<close> is a
  text strictly earlier than now and every row whose \<open>expires_at\<close> is stored as a
  number; it keeps every row whose \<open>expires_at\<close> is a text that is now or later (the
  row that expires exactly now is kept) and every row whose \<open>expires_at\<close> is a blob; it
  adds no row and leaves the users alone.
\<close>

theorem sweep_deletes_strictly_expired:
  assumes "sqlite_numeric pf (toISOString pf now) = None"
  shows "(\<forall>s \<in> set (sessions db). \<forall>t. s_expires_at s = SqlText t \<and> t < toISOString pf now \<longrightarrow>
            s \<notin> set (sessions (cleanupExpiredSessions pf db now)))
     \<and> (\<forall>s \<in> set (sessions db). \<forall>n. s_expires_at s = SqlNumber n \<longrightarrow>
            s \<notin> set (sessions (cleanupExpiredSessions pf db now)))
     \<and> (\<forall>s \<in> set (sessions db). \<forall>t. s_expires_at s = SqlText t \<and> toISOString pf now \<le> t \<longrightarrow>
            s \<in> set (sessions (cleanupExpiredSessions pf db now)))
     \<and> (\<forall>s \<in> set (sessions db). \<forall>b. s_expires_at s = SqlBlob b \<longrightarrow>
            s \<in> set (sessions (cleanupExpiredSessions pf db now)))
     \<and> set (sessions (cleanupExpiredSessions pf db now)) \<subseteq> set (sessions db)
     \<and> users (cleanupExpiredSessions pf db now) = users db"
  by (auto simp: cleanupExpiredSessions_def earlier_than_now [OF assms])

theorem sweep_deletes_strictly_expired_witness:
  "example_session 1 ''aa'' (SqlText ''1970-01-01T00:00:00.000Z'')
     \<notin> set (sessions (cleanupExpiredSessions example_platform
          \<lparr>users = [], sessions =
             [example_session 1 ''aa'' (SqlText ''1970-01-01T00:00:00.000Z''),
              example_session 2 ''bb'' (SqlText ''1970-01-01T00:00:01.000Z''),
              example_session 3 ''cc'' (SqlText ''1970-01-02T00:00:00.000Z''),
              example_session 4 ''dd'' (SqlNumber 9999),
              example_session 5 ''ee'' (SqlBlob [1])],
           users_seq = 0, sessions_seq = 5\<rparr> 1000))
   \<and> example_session 2 ''bb'' (SqlText ''1970-01-01T00:00:01.000Z'')
     \<in> set (sessions (cleanupExpiredSessions example_platform
          \<lparr>users = [], sessions =
             [example_session 1 ''aa'' (SqlText ''1970-01-01T00:00:00.000Z''),
              example_session 2 ''bb'' (SqlText ''1970-01-01T00:00:01.000Z''),
              example_session 3 ''cc'' (SqlText ''1970-01-02T00:00:00.000Z''),
              example_session 4 ''dd'' (SqlNumber 9999),
              example_session 5 ''ee'' (SqlBlob [1])],
           users_seq = 0, sessions_seq = 5\<rparr> 1000))
   \<and> example_session 3 ''cc'' (SqlText ''1970-01-02T00:00:00.000Z'')
     \<in> set (sessions (cleanupExpiredSessions example_platform
          \<lparr>users = [], sessions =
             [example_session 1 ''aa'' (SqlText ''1970-01-01T00:00:00.000Z''),
              example_session 2 ''bb'' (SqlText ''1970-01-01T00:00:01.000Z''),
              example_session 3 ''cc'' (SqlText ''1970-01-02T00:00:00.000Z''),
              example_session 4 ''dd'' (SqlNumber 9999),
              example_session 5 ''ee'' (SqlBlob [1])],
           users_seq = 0, sessions_seq = 5\<rparr> 1000))
   \<and> example_session 4 ''dd'' (SqlNumber 9999)
     \<notin> set (sessions (cleanupExpiredSessions example_platform
          \<lparr>users = [], sessions =
             [example_session 1 ''aa'' (SqlText ''1970-01-01T00:00:00.000Z''),
              example_session 2 ''bb'' (SqlText ''1970-01-01T00:00:01.000Z''),
              example_session 3 ''cc'' (SqlText ''1970-01-02T00:00:00.000Z''),
              example_session 4 ''dd'' (SqlNumber 9999),
              example_session 5 ''ee'' (SqlBlob [1])],
           users_seq = 0, sessions_seq = 5\<rparr> 1000))
   \<and> example_session 5 ''ee'' (SqlBlob [1])
     \<in> set (sessions (cleanupExpiredSessions example_platform
          \<lparr>users = [], sessions =
             [example_session 1 ''aa'' (SqlText ''1970-01-01T00:00:00.000Z''),
              example_session 2 ''bb'' (SqlText ''1970-01-01T00:00:01.000Z''),
              example_session 3 ''cc'' (SqlText ''1970-01-02T00:00:00.000Z''),
              example_session 4 ''dd'' (SqlNumber 9999),
              example_session 5 ''ee'' (SqlBlob [1])],
           users_seq = 0, sessions_seq = 5\<rparr> 1000))"
  using sweep_deletes_strictly_expired [OF example_now_1000(2), of
      "\<lparr>users = [], sessions =
             [example_session 1 ''aa'' (SqlText ''1970-01-01T00:00:00.000Z''),
              example_session 2 ''bb'' (SqlText ''1970-01-01T00:00:01.000Z''),
              example_session 3 ''cc'' (SqlText ''1970-01-02T00:00:00.000Z''),
              example_session 4 ''dd'' (SqlNumber 9999),
              example_session 5 ''ee'' (SqlBlob [1])],
           users_seq = 0, sessions_seq = 5\<rparr>"]
  by (simp add: example_now_1000(1) example_session_def)

section \<open>Validating a session\<close>













section \<open>The auth request handler\<close>

lemma register_end_no_hash:
  "register_end pf db now r16 r32 req = (db', resp) \<Longrightarrow>
   body_user (body resp) = Some user \<Longrightarrow> map_of user ''password_hash'' = None"
  by (auto simp: register_end_def respond_def body_user_def Let_def delete_conv
      split: option.splits if_splits sum.splits prod.splits jsonval.splits)

lemma login_end_no_hash:
  "login_end pf db now r32 req = (db', resp) \<Longrightarrow>
   body_user (body resp) = Some user \<Longrightarrow> map_of user ''password_hash'' = None"
  by (auto simp: login_end_def respond_def body_user_def Let_def delete_conv
      split: option.splits if_splits sum.splits prod.splits jsval.splits jsonval.splits)

text \<open>
  Claim C4. Whatever the request, the database, the clock and the random bytes are,
  a response of \<open>handleAuthRequest\<close> whose body carries a user object (the 200
  responses of register, login and current-user) has no \<open>password_hash\<close> property in
  that object.
\<close>

theorem auth_responses_hide_password_hash:
  "handleAuthRequest pf db now r16 r32 req = Inr (Some (db', resp)) \<and>
   body_user (body resp) = Some user \<longrightarrow> map_of user ''password_hash'' = None"
proof
  assume a: "handleAuthRequest pf db now r16 r32 req = Inr (Some (db', resp)) \<and>
   body_user (body resp) = Some user"
  consider (reg) "req_pathname req = ''/api/auth/register'' \<and> req_method req = ''POST''"
    | (login) "\<not> (req_pathname req = ''/api/auth/register'' \<and> req_method req = ''POST'')"
        "req_pathname req = ''/api/auth/login'' \<and> req_method req = ''POST''"
    | (other) "\<not> (req_pathname req = ''/api/auth/register'' \<and> req_method req = ''POST'')"
        "\<not> (req_pathname req = ''/api/auth/login'' \<and> req_method req = ''POST'')"
    by blast
  then show "map_of user ''password_hash'' = None"
  proof cases
    case reg
    with a have "register_end pf db now r16 r32 req = (db', resp)"
      by (simp add: handleAuthRequest_def)
    with a show ?thesis using register_end_no_hash by blast
  next
    case login
    with a have "login_end pf db now r32 req = (db', resp)"
      by (simp add: handleAuthRequest_def)
    with a show ?thesis using login_end_no_hash by blast
  next
    case other
    with a show ?thesis
      by (auto simp: handleAuthRequest_def respond_def body_user_def delete_conv
          split: if_splits sum.splits option.splits)
  qed
qed

text \<open>
  The object that \<open>getUserByEmail\<close> returns does carry the hash, so the \<open>delete\<close> in the
  handler is what keeps it out of the response.
\<close>

lemma getUserByEmail_has_hash:
  "getUserByEmail pf db email = Some user \<Longrightarrow> map_of user ''password_hash'' \<noteq> None"
  by (auto simp: getUserByEmail_def parse_meta_def select_all_def update_conv'
      split: option.splits sum.splits jsval.splits if_splits)

lemma email_key_string: "email_key pf (JString email) = Some email"
  by (simp add: email_key_def bind_value_def as_text_def)

lemma example_register:
  "\<exists>db' resp user.
     handleAuthRequest example_platform empty_store 0 (replicate 16 1) (replicate 32 2)
        \<lparr>req_method = ''POST'', req_pathname = ''/api/auth/register'', req_cookie = None,
         req_body = Some \<lparr>cr_email = Some (JString ''a@b.com''),
                          cr_password = Some (JString ''Secret123!''),
                          cr_fullName = None\<rparr>\<rparr>
       = Inr (Some (db', resp))
     \<and> status resp = 200 \<and> set_cookie resp \<noteq> None
     \<and> body_user (body resp) = Some user
     \<and> map_of user ''email'' = Some (Str ''a@b.com'')"
  by (simp add: handleAuthRequest_def register_end_def getUserByEmail_def email_key_string
      createUser_def insert_user_def bind_value_def as_text_def json_truthy_def
      createSession_def parse_meta_def select_all_def example_platform_def empty_store_def
      next_rowid_def respond_def body_user_def Let_def opt_str_def opt_num_def delete_conv)

theorem auth_responses_hide_password_hash_witness:
  "\<exists>db' resp user.
     handleAuthRequest example_platform empty_store 0 (replicate 16 1) (replicate 32 2)
        \<lparr>req_method = ''POST'', req_pathname = ''/api/auth/register'', req_cookie = None,
         req_body = Some \<lparr>cr_email = Some (JString ''a@b.com''),
                          cr_password = Some (JString ''Secret123!''),
                          cr_fullName = None\<rparr>\<rparr>
       = Inr (Some (db', resp))
     \<and> status resp = 200
     \<and> body_user (body resp) = Some user
     \<and> map_of user ''email'' = Some (Str ''a@b.com'')
     \<and> map_of user ''password_hash'' = None"
proof -
  obtain db' resp user where r:
    "handleAuthRequest example_platform empty_store 0 (replicate 16 1) (replicate 32 2)
        \<lparr>req_method = ''POST'', req_pathname = ''/api/auth/register'', req_cookie = None,
         req_body = Some \<lparr>cr_email = Some (JString ''a@b.com''),
                          cr_password = Some (JString ''Secret123!''),
                          cr_fullName = None\<rparr>\<rparr>
       = Inr (Some (db', resp))"
    "status resp = 200" "body_user (body resp) = Some user"
    "map_of user ''email'' = Some (Str ''a@b.com'')"
    using example_register by blast
  from r(1,3) have "map_of user ''password_hash'' = None"
    using auth_responses_hide_password_hash by blast
  with r show ?thesis by blast
qed




lemma example_getUserByEmail:
  "getUserByEmail example_platform
      \<lparr>users = [example_user h (Some ''{}'') a], sessions = [], users_seq = 1, sessions_seq = 0\<rparr>
      (JString ''a@b.com'')
   = Some [(''id'', Num 1), (''email'', Str ''a@b.com''), (''password_hash'', Str h),
           (''full_name'', Null), (''meta'', Json ()),
           (''created_at'', Str ''1970-01-01 00:00:00''),
           (''updated_at'', Str ''1970-01-01 00:00:00''), (''last_login'', Null),
           (''is_active'', opt_num a), (''role'', Str ''user'')]"
  by (simp add: getUserByEmail_def email_key_string parse_meta_def select_all_def
      example_user_def example_platform_def opt_str_def)

lemma example_no_user:
  "getUserByEmail example_platform empty_store (JString ''a@b.com'') = None"
  by (simp add: getUserByEmail_def email_key_string empty_store_def)




text \<open>
  Where \<open>verifyPassword\<close> throws, the handler's \<open>catch\<close> answers 400 \<open>Invalid request\<close>,
  and only a registered email gets there. This happens on an intact database for every
  truthy password that is not a string, since \<open>pbkdf2Sync\<close> rejects it: the password
  \<open>123\<close> is answered 400 for a registered email and 401 for an unknown one. It also
  happens for a stored hash without a separator. The theorem of claim C5 says nothing
  about these requests.
\<close>

lemma login_verify_throws:
  assumes "req_pathname req = ''/api/auth/login''" "req_method req = ''POST''"
    "req_body req = Some creds" "cr_email creds = Some email"
    "cr_password creds = Some password" "json_truthy email" "json_truthy password"
    "getUserByEmail pf db email = Some user"
    "\<forall>pw. password \<noteq> JString pw"
  shows "handleAuthRequest pf db now r16 r32 req
     = Inr (Some (db, respond 400 None (ErrorBody ''Invalid request'')))"
  using assms
  by (cases password)
    (auto simp: handleAuthRequest_def login_end_def split: option.splits jsval.splits)

lemma login_number_password_example:
  "handleAuthRequest example_platform
      \<lparr>users = [example_user (hashPassword example_kdf [] ''right'') (Some ''{}'') (Some 1)],
       sessions = [], users_seq = 1, sessions_seq = 0\<rparr> 0 [] (replicate 32 2)
      \<lparr>req_method = ''POST'', req_pathname = ''/api/auth/login'', req_cookie = None,
       req_body = Some \<lparr>cr_email = Some (JString ''a@b.com''),
                        cr_password = Some (JNumber 123), cr_fullName = None\<rparr>\<rparr>
     = Inr (Some (\<lparr>users = [example_user (hashPassword example_kdf [] ''right'') (Some ''{}'') (Some 1)],
                   sessions = [], users_seq = 1, sessions_seq = 0\<rparr>,
                  respond 400 None (ErrorBody ''Invalid request'')))
   \<and> handleAuthRequest example_platform empty_store 0 [] (replicate 32 2)
      \<lparr>req_method = ''POST'', req_pathname = ''/api/auth/login'', req_cookie = None,
       req_body = Some \<lparr>cr_email = Some (JString ''a@b.com''),
                        cr_password = Some (JNumber 123), cr_fullName = None\<rparr>\<rparr>
     = Inr (Some (empty_store, respond 401 None (ErrorBody ''Invalid credentials'')))"
  by (simp add: handleAuthRequest_def login_end_def example_no_user example_getUserByEmail
      json_truthy_def)

lemma login_malformed_hash_example:
  "handleAuthRequest example_platform
      \<lparr>users = [example_user ''deadbeef'' (Some ''{}'') (Some 1)],
       sessions = [], users_seq = 1, sessions_seq = 0\<rparr> 0 [] (replicate 32 2)
      \<lparr>req_method = ''POST'', req_pathname = ''/api/auth/login'', req_cookie = None,
       req_body = Some \<lparr>cr_email = Some (JString ''a@b.com''),
                        cr_password = Some (JString ''secret''), cr_fullName = None\<rparr>\<rparr>
     = Inr (Some (\<lparr>users = [example_user ''deadbeef'' (Some ''{}'') (Some 1)],
                   sessions = [], users_seq = 1, sessions_seq = 0\<rparr>,
                  respond 400 None (ErrorBody ''Invalid request'')))"
proof -
  have v: "verifyPassword example_kdf ''secret'' ''deadbeef'' = Inl TypeError"
    by (rule verify_no_separator) simp
  have k: "pbkdf2Sync example_platform = example_kdf"
    by (simp add: example_platform_def)
  show ?thesis
    by (simp add: handleAuthRequest_def login_end_def k v example_getUserByEmail json_truthy_def)
qed

lemma createUser_duplicate:
  assumes "\<exists>r \<in> set (users db). u_email r = email"
  shows "createUser pf db now (JString email) passwordHash fullName metaJson = (db, None)"
  using assms
  by (cases "bind_value fullName")
    (auto simp: createUser_def insert_user_def bind_value_def as_text_def)

text \<open>
  Claim C6, as the code has it. An INSERT that fails on the UNIQUE constraint of
  \<open>email\<close> makes \<open>createUser\<close> return null with the database unchanged, and a
  registration whose pre-check found no user then answers 500 \<open>Failed to create user\<close>.
  The 400 \<open>Email already registered\<close> is the answer only when the pre-check finds the
  user.
\<close>

theorem register_duplicate_email:
  "(req_pathname req = ''/api/auth/register'' \<and> req_method req = ''POST''
      \<and> req_body req = Some creds \<and> cr_email creds = Some (JString email)
      \<and> cr_password creds = Some (JString password) \<and> email \<noteq> [] \<and> password \<noteq> []
      \<and> getUserByEmail pf db (JString email) = None
      \<and> (\<exists>r \<in> set (users db). u_email r = email)
    \<longrightarrow> handleAuthRequest pf db now r16 r32 req
          = Inr (Some (db, respond 500 None (ErrorBody ''Failed to create user''))))
   \<and> (req_pathname req = ''/api/auth/register'' \<and> req_method req = ''POST''
      \<and> req_body req = Some creds \<and> cr_email creds = Some (JString email)
      \<and> cr_password creds = Some (JString password) \<and> email \<noteq> [] \<and> password \<noteq> []
      \<and> getUserByEmail pf db (JString email) = Some existingUser
    \<longrightarrow> handleAuthRequest pf db now r16 r32 req
          = Inr (Some (db, respond 400 None (ErrorBody ''Email already registered''))))
   \<and> ((\<exists>r \<in> set (users db). u_email r = email)
    \<longrightarrow> createUser pf db now (JString email) passwordHash fullName metaJson = (db, None))"
proof (intro conjI impI)
  assume a: "req_pathname req = ''/api/auth/register'' \<and> req_method req = ''POST''
      \<and> req_body req = Some creds \<and> cr_email creds = Some (JString email)
      \<and> cr_password creds = Some (JString password) \<and> email \<noteq> [] \<and> password \<noteq> []
      \<and> getUserByEmail pf db (JString email) = None
      \<and> (\<exists>r \<in> set (users db). u_email r = email)"
  then have "register_end pf db now r16 r32 req
      = (db, respond 500 None (ErrorBody ''Failed to create user''))"
    by (simp add: register_end_def createUser_duplicate json_truthy_def)
  with a show "handleAuthRequest pf db now r16 r32 req
          = Inr (Some (db, respond 500 None (ErrorBody ''Failed to create user'')))"
    by (simp add: handleAuthRequest_def)
next
  assume a: "req_pathname req = ''/api/auth/register'' \<and> req_method req = ''POST''
      \<and> req_body req = Some creds \<and> cr_email creds = Some (JString email)
      \<and> cr_password creds = Some (JString password) \<and> email \<noteq> [] \<and> password \<noteq> []
      \<and> getUserByEmail pf db (JString email) = Some existingUser"
  then have "register_end pf db now r16 r32 req
      = (db, respond 400 None (ErrorBody ''Email already registered''))"
    by (simp add: register_end_def json_truthy_def)
  with a show "handleAuthRequest pf db now r16 r32 req
          = Inr (Some (db, respond 400 None (ErrorBody ''Email already registered'')))"
    by (simp add: handleAuthRequest_def)
next
  assume "\<exists>r \<in> set (users db). u_email r = email"
  then show "createUser pf db now (JString email) passwordHash fullName metaJson = (db, None)"
    by (rule createUser_duplicate)
qed

lemma example_unloadable_user:
  "getUserByEmail example_platform
      \<lparr>users = [example_user h (Some ''{bad'') a], sessions = [], users_seq = 1, sessions_seq = 0\<rparr>
      (JString ''a@b.com'') = None"
  by (simp add: getUserByEmail_def email_key_string parse_meta_def select_all_def
      example_user_def example_platform_def opt_str_def)

text \<open>
  A registration for an email that a row already has, which passes the pre-check
  (\<open>getUserByEmail\<close> returns null because the \<open>meta\<close> of that row does not parse): the
  INSERT fails on the UNIQUE constraint and the answer is 500, not 400. A concurrent
  registration that commits between pre-check and INSERT takes the same branch.
\<close>

theorem register_duplicate_email_counterexample:
  "u_email (example_user ''x:y'' (Some ''{bad'') (Some 1)) = ''a@b.com''
   \<and> handleAuthRequest example_platform
      \<lparr>users = [example_user ''x:y'' (Some ''{bad'') (Some 1)],
       sessions = [], users_seq = 1, sessions_seq = 0\<rparr> 0 (replicate 16 1) (replicate 32 2)
      \<lparr>req_method = ''POST'', req_pathname = ''/api/auth/register'', req_cookie = None,
       req_body = Some \<lparr>cr_email = Some (JString ''a@b.com''),
                        cr_password = Some (JString ''Secret123!''), cr_fullName = None\<rparr>\<rparr>
     = Inr (Some (\<lparr>users = [example_user ''x:y'' (Some ''{bad'') (Some 1)],
                   sessions = [], users_seq = 1, sessions_seq = 0\<rparr>,
                  respond 500 None (ErrorBody ''Failed to create user'')))"
proof -
  have e: "u_email (example_user ''x:y'' (Some ''{bad'') (Some 1)) = ''a@b.com''"
    by (simp add: example_user_def)
  then show ?thesis
    by (simp add: handleAuthRequest_def register_end_def example_unloadable_user
        createUser_duplicate json_truthy_def)
qed

theorem register_duplicate_email_witness:
  "handleAuthRequest example_platform
      \<lparr>users = [example_user ''x:y'' (Some ''{bad'') (Some 1)],
       sessions = [], users_seq = 1, sessions_seq = 0\<rparr> 0 (replicate 16 1) (replicate 32 2)
      \<lparr>req_method = ''POST'', req_pathname = ''/api/auth/register'', req_cookie = None,
       req_body = Some \<lparr>cr_email = Some (JString ''a@b.com''),
                        cr_password = Some (JString ''Secret123!''), cr_fullName = None\<rparr>\<rparr>
     = Inr (Some (\<lparr>users = [example_user ''x:y'' (Some ''{bad'') (Some 1)],
                   sessions = [], users_seq = 1, sessions_seq = 0\<rparr>,
                  respond 500 None (ErrorBody ''Failed to create user'')))
   \<and> handleAuthRequest example_platform
      \<lparr>users = [example_user ''x:y'' (Some ''{}'') (Some 1)],
       sessions = [], users_seq = 1, sessions_seq = 0\<rparr> 0 (replicate 16 1) (replicate 32 2)
      \<lparr>req_method = ''POST'', req_pathname = ''/api/auth/register'', req_cookie = None,
       req_body = Some \<lparr>cr_email = Some (JString ''a@b.com''),
                        cr_password = Some (JString ''Secret123!''), cr_fullName = None\<rparr>\<rparr>
     = Inr (Some (\<lparr>users = [example_user ''x:y'' (Some ''{}'') (Some 1)],
                   sessions = [], users_seq = 1, sessions_seq = 0\<rparr>,
                  respond 400 None (ErrorBody ''Email already registered'')))
   \<and> createUser example_platform
      \<lparr>users = [example_user ''x:y'' (Some ''{}'') (Some 1)],
       sessions = [], users_seq = 1, sessions_seq = 0\<rparr> 0 (JString ''a@b.com'') ''p:q'' JNull ''{}''
     = (\<lparr>users = [example_user ''x:y'' (Some ''{}'') (Some 1)],
         sessions = [], users_seq = 1, sessions_seq = 0\<rparr>, None)"
proof -
  have e: "u_email (example_user ''x:y'' m (Some 1)) = ''a@b.com''" for m
    by (simp add: example_user_def)
  show ?thesis
    using register_duplicate_email [of
        "\<lparr>req_method = ''POST'', req_pathname = ''/api/auth/register'', req_cookie = None,
          req_body = Some \<lparr>cr_email = Some (JString ''a@b.com''),
                        cr_password = Some (JString ''Secret123!''), cr_fullName = None\<rparr>\<rparr>"
        "\<lparr>cr_email = Some (JString ''a@b.com''), cr_password = Some (JString ''Secret123!''),
          cr_fullName = None\<rparr>"
        "''a@b.com''" "''Secret123!''" example_platform
        "\<lparr>users = [example_user ''x:y'' (Some ''{bad'') (Some 1)],
          sessions = [], users_seq = 1, sessions_seq = 0\<rparr>" 0 "replicate 16 1" "replicate 32 2"]
      register_duplicate_email [of
        "\<lparr>req_method = ''POST'', req_pathname = ''/api/auth/register'', req_cookie = None,
          req_body = Some \<lparr>cr_email = Some (JString ''a@b.com''),
                        cr_password = Some (JString ''Secret123!''), cr_fullName = None\<rparr>\<rparr>"
        "\<lparr>cr_email = Some (JString ''a@b.com''), cr_password = Some (JString ''Secret123!''),
          cr_fullName = None\<rparr>"
        "''a@b.com''" "''Secret123!''" example_platform
        "\<lparr>users = [example_user ''x:y'' (Some ''{}'') (Some 1)],
          sessions = [], users_seq = 1, sessions_seq = 0\<rparr>" 0 "replicate 16 1" "replicate 32 2"
        "[(''id'', Num 1), (''email'', Str ''a@b.com''), (''password_hash'', Str ''x:y''),
           (''full_name'', Null), (''meta'', Json ()),
           (''created_at'', Str ''1970-01-01 00:00:00''),
           (''updated_at'', Str ''1970-01-01 00:00:00''), (''last_login'', Null),
           (''is_active'', opt_num (Some 1)), (''role'', Str ''user'')]"
        "''p:q''" JNull "''{}''"]
      example_unloadable_user [of "''x:y''" "Some 1"]
      example_getUserByEmail [of "''x:y''" "Some 1"] e
    by simp
qed

end
